theory Spec2Isabelle
  imports
    Complex_Main
    "HOL-Library.Multiset"
    "HOL-Library.Char_ord"
    "HOL-Library.List_Lexorder"
    "HOL-Library.Product_Lexorder"
begin

section \<open>JavaScript numbers\<close>

text \<open>
  Every nutrition value and every goal is a JavaScript \<^verbatim>\<open>number\<close>, an IEEE 754
  binary64 value. A finite double is modelled by the rational it denotes
  (\<open>Fin\<close>), next to the two infinities and NaN. The two zeros are identified:
  \<^verbatim>\<open>-0\<close> is falsy, prints as \<^verbatim>\<open>0\<close> and adds like \<^verbatim>\<open>0\<close>, and the code modelled
  here never divides by a zero, the only place where the sign of a zero shows.

  Arithmetic computes the exact rational result and rounds it to the nearest
  double, ties to even (\<open>rnd\<close>): 53 significant bits, least exponent
  \<open>-1074\<close> (subnormals), and an infinity when the rounded magnitude reaches
  \<open>2^1024\<close>, that is when its binary exponent \<open>floor_log2\<close> reaches \<open>1024\<close>.
\<close>

datatype number = Fin rat | PInf | NInf | NaN

definition pow2 :: "int \<Rightarrow> rat" where
  "pow2 e = (if 0 \<le> e then 2 ^ nat e else 1 / 2 ^ nat (- e))"

function bitlen :: "int \<Rightarrow> int" where
  "bitlen n = (if n \<le> 0 then 0 else 1 + bitlen (n div 2))"
  by pat_completeness auto
termination
  by (relation "measure nat") auto

declare bitlen.simps [simp del]

text \<open>\<open>floor_log2 a\<close> is the \<open>k\<close> with \<open>2^k \<le> a < 2^(k+1)\<close>, for \<open>a > 0\<close>.\<close>

definition floor_log2 :: "rat \<Rightarrow> int" where
  "floor_log2 a =
     (let (p, q) = quotient_of a;
          d = bitlen p - bitlen q
      in if pow2 d \<le> a then d else d - 1)"

definition round_half_even :: "rat \<Rightarrow> int" where
  "round_half_even q =
     (let f = \<lfloor>q\<rfloor>; d = q - of_int f
      in if d < 1 / 2 then f
         else if 1 / 2 < d then f + 1
         else if even f then f else f + 1)"

definition rnd :: "rat \<Rightarrow> number" where
  "rnd x =
     (if x = 0 then Fin 0
      else let a = \<bar>x\<bar>;
               e = max (floor_log2 a - 52) (- 1074);
               r = of_int (round_half_even (a / pow2 e)) * pow2 e
           in if 1024 \<le> floor_log2 r then (if 0 < x then PInf else NInf)
              else Fin (if 0 < x then r else - r))"

text \<open>The binary operators \<^verbatim>\<open>+\<close>, \<^verbatim>\<open>-\<close>, \<^verbatim>\<open>*\<close>, \<^verbatim>\<open>/\<close> on numbers.\<close>

fun js_add :: "number \<Rightarrow> number \<Rightarrow> number" where
  "js_add (Fin a) (Fin b) = rnd (a + b)"
| "js_add NaN _ = NaN"
| "js_add _ NaN = NaN"
| "js_add PInf NInf = NaN"
| "js_add NInf PInf = NaN"
| "js_add PInf _ = PInf"
| "js_add _ PInf = PInf"
| "js_add NInf _ = NInf"
| "js_add _ NInf = NInf"

fun js_neg :: "number \<Rightarrow> number" where
  "js_neg (Fin a) = Fin (- a)"
| "js_neg PInf = NInf"
| "js_neg NInf = PInf"
| "js_neg NaN = NaN"

definition js_sub :: "number \<Rightarrow> number \<Rightarrow> number" where
  "js_sub x y = js_add x (js_neg y)"

text \<open>The sign of a number that is not NaN: \<open>-1\<close>, \<open>0\<close> or \<open>1\<close>.\<close>

fun js_sign :: "number \<Rightarrow> int" where
  "js_sign (Fin a) = (if a < 0 then - 1 else if a = 0 then 0 else 1)"
| "js_sign PInf = 1"
| "js_sign NInf = - 1"
| "js_sign NaN = 0"

definition signed_inf :: "int \<Rightarrow> number" where
  "signed_inf s = (if s < 0 then NInf else PInf)"

fun js_mul :: "number \<Rightarrow> number \<Rightarrow> number" where
  "js_mul (Fin a) (Fin b) = rnd (a * b)"
| "js_mul NaN _ = NaN"
| "js_mul _ NaN = NaN"
| "js_mul x y =
     (if js_sign x = 0 \<or> js_sign y = 0 then NaN
      else signed_inf (js_sign x * js_sign y))"

fun js_div :: "number \<Rightarrow> number \<Rightarrow> number" where
  "js_div (Fin a) (Fin b) =
     (if b = 0 then (if a = 0 then NaN else signed_inf (js_sign (Fin a)))
      else rnd (a / b))"
| "js_div NaN _ = NaN"
| "js_div _ NaN = NaN"
| "js_div (Fin a) _ = Fin 0"
| "js_div x (Fin b) = signed_inf (js_sign x * (if b < 0 then - 1 else 1))"
| "js_div _ _ = NaN"

text \<open>\<^verbatim>\<open>Math.round\<close>: the nearest integer, a tie going up.\<close>

fun Math_round :: "number \<Rightarrow> number" where
  "Math_round (Fin a) = Fin (of_int \<lfloor>a + 1 / 2\<rfloor>)"
| "Math_round x = x"

fun Math_abs :: "number \<Rightarrow> number" where
  "Math_abs (Fin a) = Fin \<bar>a\<bar>"
| "Math_abs NaN = NaN"
| "Math_abs _ = PInf"

text \<open>\<^verbatim>\<open>x > y\<close>: false as soon as one side is NaN.\<close>

fun js_gt :: "number \<Rightarrow> number \<Rightarrow> bool" where
  "js_gt (Fin a) (Fin b) = (b < a)"
| "js_gt NaN _ = False"
| "js_gt _ NaN = False"
| "js_gt PInf y = (y \<noteq> PInf)"
| "js_gt x NInf = (x \<noteq> NInf)"
| "js_gt _ _ = False"

text \<open>
  Truthiness of a number, and of a value that is a number or
  \<^verbatim>\<open>null\<close>/\<^verbatim>\<open>undefined\<close> (\<open>None\<close>): \<^verbatim>\<open>0\<close>, NaN, \<^verbatim>\<open>null\<close> and \<^verbatim>\<open>undefined\<close> are falsy.
\<close>

definition truthy :: "number \<Rightarrow> bool" where
  "truthy x = (x \<noteq> Fin 0 \<and> x \<noteq> NaN)"

fun truthy_opt :: "number option \<Rightarrow> bool" where
  "truthy_opt None = False"
| "truthy_opt (Some x) = truthy x"

text \<open>\<^verbatim>\<open>x || 0\<close> on a number, and on a number or \<^verbatim>\<open>null\<close>.\<close>

definition or_zero :: "number \<Rightarrow> number" where
  "or_zero x = (if truthy x then x else Fin 0)"

fun or_zero_opt :: "number option \<Rightarrow> number" where
  "or_zero_opt None = Fin 0"
| "or_zero_opt (Some x) = or_zero x"

text \<open>\<^verbatim>\<open>xs.reduce((sum, x) => sum + x, 0)\<close>: the sum from the left, starting at \<^verbatim>\<open>0\<close>.\<close>

definition js_sum :: "number list \<Rightarrow> number" where
  "js_sum xs = foldl js_add (Fin 0) xs"

section \<open>Data model (types.ts)\<close>

record NutritionInfo =
  calories :: number
  protein_g :: number
  carbs_g :: number
  fat_g :: number
  fiber_g :: number

record FoodLogEntry =
  entry_id :: int
  logged_at :: string
  date :: string
  meal :: "string option"
  food_name :: string
  fdc_id :: "number option"
  serving_size :: number
  serving_unit :: string
  entry_calories :: number
  entry_protein_g :: "number option"
  entry_carbs_g :: "number option"
  entry_fat_g :: "number option"
  entry_fiber_g :: "number option"
  entry_notes :: "string option"

record Goals =
  goals_id :: int
  daily_calories :: "number option"
  goal_protein_g :: "number option"
  goal_carbs_g :: "number option"
  goal_fat_g :: "number option"
  updated_at :: string

section \<open>calculateTotals (services/database.ts)\<close>

definition zero_totals :: NutritionInfo where
  "zero_totals =
     \<lparr>calories = Fin 0, protein_g = Fin 0, carbs_g = Fin 0, fat_g = Fin 0, fiber_g = Fin 0\<rparr>"

text \<open>The reducer passed to \<^verbatim>\<open>entries.reduce\<close>.\<close>

definition add_entry :: "NutritionInfo \<Rightarrow> FoodLogEntry \<Rightarrow> NutritionInfo" where
  "add_entry totals entry =
     \<lparr>calories = js_add (calories totals) (or_zero (entry_calories entry)),
      protein_g = js_add (protein_g totals) (or_zero_opt (entry_protein_g entry)),
      carbs_g = js_add (carbs_g totals) (or_zero_opt (entry_carbs_g entry)),
      fat_g = js_add (fat_g totals) (or_zero_opt (entry_fat_g entry)),
      fiber_g = js_add (fiber_g totals) (or_zero_opt (entry_fiber_g entry))\<rparr>"

definition calculateTotals :: "FoodLogEntry list \<Rightarrow> NutritionInfo" where
  "calculateTotals entries = foldl add_entry zero_totals entries"

section \<open>Objects used as dictionaries (index.ts)\<close>

text \<open>
  \<^verbatim>\<open>get_summary\<close> groups entries in \<^verbatim>\<open>const byDate: Record<string, ...> = {}\<close> and
  \<^verbatim>\<open>get_daily_log\<close> in \<^verbatim>\<open>byMeal\<close>, both plain objects. The own properties of such an
  object are kept as an association list in creation order. Three facts of the
  language matter:
  \<^item> \<^verbatim>\<open>obj[k]\<close> on a key that is no own property reads \<^verbatim>\<open>Object.prototype\<close>, all
    of whose properties are truthy and none of which is an array, so
    \<^verbatim>\<open>!obj[k]\<close> is false there and \<^verbatim>\<open>obj[k].push(entry)\<close> throws a TypeError;
  \<^item> \<^verbatim>\<open>Object.entries\<close> lists the keys that are array indices (canonical decimal
    numerals below \<open>2^32 - 1\<close>) first, in ascending numeric order, and then the
    other keys in creation order;
  \<^item> an exception thrown in a tool handler is caught by the handler's
    \<^verbatim>\<open>try/catch\<close> and reported as an error response.
\<close>

datatype js_error = TypeError | SqliteError | ZodError

definition object_prototype_keys :: "string list" where
  "object_prototype_keys =
     [''constructor'', ''__defineGetter__'', ''__defineSetter__'', ''hasOwnProperty'',
      ''__lookupGetter__'', ''__lookupSetter__'', ''isPrototypeOf'',
      ''propertyIsEnumerable'', ''toString'', ''valueOf'', ''__proto__'',
      ''toLocaleString'']"

definition is_digit :: "char \<Rightarrow> bool" where
  "is_digit c = (CHR ''0'' \<le> c \<and> c \<le> CHR ''9'')"

definition index_value :: "string \<Rightarrow> int" where
  "index_value s = foldl (\<lambda>n c. 10 * n + (of_char c - 48)) 0 s"

definition is_array_index :: "string \<Rightarrow> bool" where
  "is_array_index s =
     (s \<noteq> [] \<and> list_all is_digit s \<and> (hd s \<noteq> CHR ''0'' \<or> length s = 1)
      \<and> index_value s < 4294967295)"

text \<open>
  The grouping loop
  \<^verbatim>\<open>for (const entry of entries) { if (!obj[k]) obj[k] = []; obj[k].push(entry); }\<close>
  with \<open>k = key entry\<close>, run on the object \<open>obj\<close>.
\<close>

fun group_into ::
  "(FoodLogEntry \<Rightarrow> string) \<Rightarrow> FoodLogEntry list \<Rightarrow> (string \<times> FoodLogEntry list) list
     \<Rightarrow> js_error + (string \<times> FoodLogEntry list) list" where
  "group_into key [] obj = Inr obj"
| "group_into key (entry # entries) obj =
     (case map_of obj (key entry) of
        Some _ \<Rightarrow>
          group_into key entries
            (map (\<lambda>(k, v). if k = key entry then (k, v @ [entry]) else (k, v)) obj)
      | None \<Rightarrow>
          if key entry \<in> set object_prototype_keys then Inl TypeError
          else group_into key entries (obj @ [(key entry, [entry])]))"

definition object_entries :: "(string \<times> 'v) list \<Rightarrow> (string \<times> 'v) list" where
  "object_entries obj =
     sort_key (\<lambda>p. index_value (fst p)) (filter (\<lambda>p. is_array_index (fst p)) obj)
     @ filter (\<lambda>p. \<not> is_array_index (fst p)) obj"

text \<open>The shape \<^verbatim>\<open>YYYY-MM-DD\<close> of a calendar date.\<close>

fun is_iso_date :: "string \<Rightarrow> bool" where
  "is_iso_date [y1, y2, y3, y4, s1, m1, m2, s2, d1, d2] =
     (list_all is_digit [y1, y2, y3, y4, m1, m2, d1, d2]
      \<and> s1 = CHR ''-'' \<and> s2 = CHR ''-'')"
| "is_iso_date _ = False"

section \<open>The store (services/database.ts)\<close>

text \<open>
  The module variable \<^verbatim>\<open>db\<close> and the SQLite file behind it: whether the
  connection is open, the rows of the two tables (those of \<^verbatim>\<open>food_logs\<close> in
  rowid order), the AUTOINCREMENT counter, and the clock that
  \<^verbatim>\<open>CURRENT_TIMESTAMP\<close> reads. A column holds a value or NULL (\<open>None\<close>); SQLite
  stores a NaN as NULL, and better-sqlite3 binds \<^verbatim>\<open>undefined\<close> like \<^verbatim>\<open>null\<close>.
\<close>

record store =
  db_open :: bool
  clock :: string
  tbl_goals :: "Goals list"
  tbl_food_logs :: "FoodLogEntry list"
  last_rowid :: int

definition sql_real :: "number option \<Rightarrow> number option" where
  "sql_real v = (if v = Some NaN then None else v)"

definition default_goals :: "string \<Rightarrow> Goals" where
  "default_goals now =
     \<lparr>goals_id = 1, daily_calories = Some (Fin 2000), goal_protein_g = Some (Fin 150),
      goal_carbs_g = Some (Fin 250), goal_fat_g = Some (Fin 65), updated_at = now\<rparr>"

text \<open>
  \<^verbatim>\<open>CREATE TABLE IF NOT EXISTS\<close> leaves the rows of an existing table alone; a
  table that did not exist has no rows.
\<close>

definition initializeSchema :: "store \<Rightarrow> store" where
  "initializeSchema st =
     (if length (tbl_goals st) = 0
      then st\<lparr>tbl_goals := [default_goals (clock st)]\<rparr>
      else st)"

definition getDb :: "store \<Rightarrow> store" where
  "getDb st = (if \<not> db_open st then initializeSchema (st\<lparr>db_open := True\<rparr>) else st)"

definition getGoals :: "store \<Rightarrow> Goals option \<times> store" where
  "getGoals st =
     (let st1 = getDb st
      in (find (\<lambda>g. goals_id g = 1) (tbl_goals st1), st1))"

text \<open>
  The argument of \<^verbatim>\<open>updateGoals\<close>, a \<^verbatim>\<open>Partial<Goals>\<close> as \<^verbatim>\<open>SetGoalsSchema\<close> produces
  it: each of the four targets is a number or not supplied (\<open>None\<close>).
\<close>

record GoalsInput =
  in_daily_calories :: "number option"
  in_protein_g :: "number option"
  in_carbs_g :: "number option"
  in_fat_g :: "number option"

text \<open>\<^verbatim>\<open>a ?? b\<close>, and \<^verbatim>\<open>current?.field\<close> (written \<open>Option.bind current field\<close>).\<close>

definition nullish_or :: "'a option \<Rightarrow> 'a option \<Rightarrow> 'a option" where
  "nullish_or a b = (case a of Some v \<Rightarrow> Some v | None \<Rightarrow> b)"

text \<open>
  The statement \<^verbatim>\<open>UPDATE goals SET daily_calories = ?, protein_g = ?, carbs_g = ?,
  fat_g = ?, updated_at = CURRENT_TIMESTAMP WHERE id = 1\<close>, run with four values.
\<close>

definition update_goals_row ::
  "number option \<Rightarrow> number option \<Rightarrow> number option \<Rightarrow> number option \<Rightarrow> store \<Rightarrow> store" where
  "update_goals_row c p cb f st =
     st\<lparr>tbl_goals :=
          map (\<lambda>g. if goals_id g = 1
                    then g\<lparr>daily_calories := sql_real c,
                           goal_protein_g := sql_real p,
                           goal_carbs_g := sql_real cb,
                           goal_fat_g := sql_real f,
                           updated_at := clock st\<rparr>
                    else g)
              (tbl_goals st)\<rparr>"

definition updateGoals :: "GoalsInput \<Rightarrow> store \<Rightarrow> Goals option \<times> store" where
  "updateGoals goals st =
     (let st1 = getDb st;
          (current, st2) = getGoals st1;
          new_daily_calories =
            nullish_or (in_daily_calories goals) (Option.bind current daily_calories);
          new_protein_g = nullish_or (in_protein_g goals) (Option.bind current goal_protein_g);
          new_carbs_g = nullish_or (in_carbs_g goals) (Option.bind current goal_carbs_g);
          new_fat_g = nullish_or (in_fat_g goals) (Option.bind current goal_fat_g);
          st3 = update_goals_row new_daily_calories new_protein_g new_carbs_g new_fat_g st2
      in getGoals st3)"

text \<open>
  \<^verbatim>\<open>logFood\<close> takes an entry without \<^verbatim>\<open>id\<close> and \<^verbatim>\<open>logged_at\<close>: these two fields of
  the argument are not read. \<^verbatim>\<open>serving_size\<close> and \<^verbatim>\<open>calories\<close> are NOT NULL
  columns, so a NaN there fails the insert.
\<close>

definition logFood :: "FoodLogEntry \<Rightarrow> store \<Rightarrow> (js_error + FoodLogEntry) \<times> store" where
  "logFood entry st =
     (let st1 = getDb st
      in if serving_size entry = NaN \<or> entry_calories entry = NaN then (Inl SqliteError, st1)
         else
           let row = entry\<lparr>entry_id := last_rowid st1 + 1,
                          logged_at := clock st1,
                          fdc_id := sql_real (fdc_id entry),
                          entry_protein_g := sql_real (entry_protein_g entry),
                          entry_carbs_g := sql_real (entry_carbs_g entry),
                          entry_fat_g := sql_real (entry_fat_g entry),
                          entry_fiber_g := sql_real (entry_fiber_g entry)\<rparr>
           in (Inr row,
               st1\<lparr>tbl_food_logs := tbl_food_logs st1 @ [row],
                    last_rowid := last_rowid st1 + 1\<rparr>))"

text \<open>
  \<^verbatim>\<open>ORDER BY\<close> is a stable sort of the rows in rowid order; text compares
  bytewise, which is the lexicographic order of \<open>string\<close>.
\<close>

definition getDailyLog :: "string \<Rightarrow> store \<Rightarrow> FoodLogEntry list \<times> store" where
  "getDailyLog d st =
     (let st1 = getDb st
      in (sort_key logged_at (filter (\<lambda>e. date e = d) (tbl_food_logs st1)), st1))"

definition getLogsByDateRange :: "string \<Rightarrow> string \<Rightarrow> store \<Rightarrow> FoodLogEntry list \<times> store" where
  "getLogsByDateRange startDate endDate st =
     (let st1 = getDb st
      in (sort_key (\<lambda>e. (date e, logged_at e))
            (filter (\<lambda>e. startDate \<le> date e \<and> date e \<le> endDate) (tbl_food_logs st1)),
          st1))"

definition deleteEntry :: "number \<Rightarrow> store \<Rightarrow> bool \<times> store" where
  "deleteEntry n st =
     (let st1 = getDb st;
          kept = filter (\<lambda>e. Fin (of_int (entry_id e)) \<noteq> n) (tbl_food_logs st1)
      in (length kept < length (tbl_food_logs st1), st1\<lparr>tbl_food_logs := kept\<rparr>))"

definition closeDb :: "store \<Rightarrow> store" where
  "closeDb st = st\<lparr>db_open := False\<rparr>"

section \<open>Tool handlers (index.ts)\<close>

text \<open>
  A handler is modelled up to the text it builds: its result holds the values
  that the response text interpolates, or the error its \<^verbatim>\<open>try/catch\<close> reports,
  next to the store it leaves.
\<close>

text \<open>
  \<^verbatim>\<open>if (g) { ... g ... }\<close> and \<^verbatim>\<open>g || null\<close> on an optional number: the number when
  it is truthy, nothing otherwise.
\<close>

definition if_truthy :: "number option \<Rightarrow> number option" where
  "if_truthy g = (if truthy_opt g then g else None)"

subsection \<open>set\_goals\<close>

datatype goals_response =
  CurrentGoals "number option" "number option" "number option" "number option"
| GoalsUpdated "number option" "number option" "number option" "number option"

text \<open>
  \<^verbatim>\<open>z.number()\<close> accepts the finite numbers only: NaN and the two infinities are
  rejected. Under \<^verbatim>\<open>.optional()\<close> an absent value is accepted as well.
\<close>

fun z_number :: "number \<Rightarrow> bool" where
  "z_number (Fin _) = True"
| "z_number _ = False"

fun z_number_optional :: "number option \<Rightarrow> bool" where
  "z_number_optional None = True"
| "z_number_optional (Some n) = z_number n"

definition SetGoalsSchema_parse :: "GoalsInput \<Rightarrow> js_error + GoalsInput" where
  "SetGoalsSchema_parse args =
     (if z_number_optional (in_daily_calories args) \<and> z_number_optional (in_protein_g args)
         \<and> z_number_optional (in_carbs_g args) \<and> z_number_optional (in_fat_g args)
      then Inr args else Inl ZodError)"

text \<open>
  In \<open>CurrentGoals\<close> a field is \<^verbatim>\<open>current?.field || "not set"\<close>, with \<open>None\<close> for
  \<^verbatim>\<open>"not set"\<close>; in \<open>GoalsUpdated\<close> it is the field of the row as read back.
\<close>

definition set_goals :: "GoalsInput \<Rightarrow> store \<Rightarrow> (js_error + goals_response) \<times> store" where
  "set_goals args st =
     (case SetGoalsSchema_parse args of
        Inl err \<Rightarrow> (Inl err, st)
      | Inr input \<Rightarrow>
          if \<not> truthy_opt (in_daily_calories input) \<and> \<not> truthy_opt (in_protein_g input)
             \<and> \<not> truthy_opt (in_carbs_g input) \<and> \<not> truthy_opt (in_fat_g input)
          then
            let (current, st1) = getGoals st
            in (Inr (CurrentGoals
                       (if_truthy (Option.bind current daily_calories))
                       (if_truthy (Option.bind current goal_protein_g))
                       (if_truthy (Option.bind current goal_carbs_g))
                       (if_truthy (Option.bind current goal_fat_g))),
                st1)
          else
            let (updated, st1) = updateGoals input st
            in (case updated of
                  None \<Rightarrow> (Inl TypeError, st1)
                | Some u \<Rightarrow>
                    (Inr (GoalsUpdated (daily_calories u) (goal_protein_g u)
                            (goal_carbs_g u) (goal_fat_g u)),
                     st1)))"

subsection \<open>log\_food\<close>

record LogFoodInput =
  lf_food_name :: string
  lf_serving_size :: number
  lf_serving_unit :: string
  lf_calories :: number
  lf_protein_g :: "number option"
  lf_carbs_g :: "number option"
  lf_fat_g :: "number option"
  lf_fiber_g :: "number option"
  lf_meal :: "string option"
  lf_date :: "string option"
  lf_fdc_id :: "number option"
  lf_notes :: "string option"

definition LogFoodSchema_parse :: "LogFoodInput \<Rightarrow> js_error + LogFoodInput" where
  "LogFoodSchema_parse args =
     (if z_number (lf_serving_size args) \<and> z_number (lf_calories args)
         \<and> z_number_optional (lf_protein_g args) \<and> z_number_optional (lf_carbs_g args)
         \<and> z_number_optional (lf_fat_g args) \<and> z_number_optional (lf_fiber_g args)
         \<and> z_number_optional (lf_fdc_id args)
         \<and> (case lf_meal args of
               None \<Rightarrow> True
             | Some m \<Rightarrow> m \<in> {''breakfast'', ''lunch'', ''dinner'', ''snack''})
      then Inr args else Inl ZodError)"

text \<open>\<^verbatim>\<open>s || null\<close> and \<^verbatim>\<open>s || fallback\<close> on an optional string: the empty string is falsy.\<close>

definition nonempty_or_null :: "string option \<Rightarrow> string option" where
  "nonempty_or_null s = (if s = Some [] then None else s)"

definition string_or :: "string option \<Rightarrow> string \<Rightarrow> string" where
  "string_or s fallback = (case nonempty_or_null s of None \<Rightarrow> fallback | Some v \<Rightarrow> v)"

text \<open>
  What follows the daily total in the response: \<^verbatim>\<open>remaining + " remaining"\<close> or
  \<^verbatim>\<open>Math.abs(remaining) + " over goal"\<close>.
\<close>

datatype goal_delta = Remaining number | OverGoal number

record LogFoodResponse =
  logged_entry :: FoodLogEntry
  logged_date :: string
  daily_total :: NutritionInfo
  calories_delta :: "goal_delta option"

text \<open>The object that the handler passes to \<^verbatim>\<open>logFood\<close>.\<close>

definition new_entry :: "LogFoodInput \<Rightarrow> string \<Rightarrow> FoodLogEntry" where
  "new_entry input today =
     \<lparr>entry_id = 0, logged_at = [], date = string_or (lf_date input) today,
      meal = nonempty_or_null (lf_meal input), food_name = lf_food_name input,
      fdc_id = if_truthy (lf_fdc_id input), serving_size = lf_serving_size input,
      serving_unit = lf_serving_unit input, entry_calories = lf_calories input,
      entry_protein_g = lf_protein_g input, entry_carbs_g = lf_carbs_g input,
      entry_fat_g = lf_fat_g input, entry_fiber_g = lf_fiber_g input,
      entry_notes = nonempty_or_null (lf_notes input)\<rparr>"

definition log_food ::
  "LogFoodInput \<Rightarrow> string \<Rightarrow> store \<Rightarrow> (js_error + LogFoodResponse) \<times> store" where
  "log_food args today st =
     (case LogFoodSchema_parse args of
        Inl err \<Rightarrow> (Inl err, st)
      | Inr input \<Rightarrow>
          let d = string_or (lf_date input) today;
              (logged, st1) = logFood (new_entry input today) st
          in (case logged of
                Inl err \<Rightarrow> (Inl err, st1)
              | Inr entry \<Rightarrow>
                  let (dailyEntries, st2) = getDailyLog d st1;
                      totals = calculateTotals dailyEntries;
                      (goals, st3) = getGoals st2;
                      goal = Option.bind goals daily_calories
                  in (Inr \<lparr>logged_entry = entry, logged_date = d, daily_total = totals,
                           calories_delta =
                             (case if_truthy goal of
                                None \<Rightarrow> None
                              | Some g \<Rightarrow>
                                  let remaining = js_sub g (calories totals)
                                  in if js_gt remaining (Fin 0) then Some (Remaining remaining)
                                     else Some (OverGoal (Math_abs remaining)))\<rparr>,
                      st3)))"

subsection \<open>get\_daily\_log\<close>

record DailyLogView =
  view_date :: string
  by_meal :: "(string \<times> FoodLogEntry list) list"
  view_totals :: NutritionInfo
  calories_pct :: "number option"
  calories_goal :: "number option"
  protein_goal :: "number option"
  carbs_goal :: "number option"
  fat_goal :: "number option"

datatype daily_log_response = NoEntriesFor string | FoodLog DailyLogView

definition get_daily_log ::
  "string option \<Rightarrow> string \<Rightarrow> store \<Rightarrow> (js_error + daily_log_response) \<times> store" where
  "get_daily_log d today st =
     (let targetDate = string_or d today;
          (entries, st1) = getDailyLog targetDate st;
          (goals, st2) = getGoals st1
      in if length entries = 0 then (Inr (NoEntriesFor targetDate), st2)
         else
           let totals = calculateTotals entries
           in (case group_into (\<lambda>entry. string_or (meal entry) ''unspecified'') entries [] of
                 Inl err \<Rightarrow> (Inl err, st2)
               | Inr byMeal \<Rightarrow>
                   (Inr (FoodLog
                      \<lparr>view_date = targetDate,
                       by_meal = object_entries byMeal,
                       view_totals = totals,
                       calories_pct =
                         (case if_truthy (Option.bind goals daily_calories) of
                            None \<Rightarrow> None
                          | Some g \<Rightarrow>
                              Some (Math_round (js_mul (js_div (calories totals) g) (Fin 100)))),
                       calories_goal = if_truthy (Option.bind goals daily_calories),
                       protein_goal = if_truthy (Option.bind goals goal_protein_g),
                       carbs_goal = if_truthy (Option.bind goals goal_carbs_g),
                       fat_goal = if_truthy (Option.bind goals goal_fat_g)\<rparr>),
                    st2)))"

subsection \<open>get\_summary\<close>

text \<open>
  The handler from \<^verbatim>\<open>const entries = getLogsByDateRange(startDate, endDate)\<close> on;
  the two boundaries are what the period resolution before it computed from the
  request and the clock. \<open>summarize\<close> is the part that works on the entries
  and the goals read. In \<open>dailyTotals\<close> the object \<^verbatim>\<open>{date, ...totals}\<close> is the
  pair of the date and the totals.
\<close>

record Summary =
  numDays :: nat
  numEntries :: nat
  avgCalories :: number
  avgProtein :: number
  avgCarbs :: number
  avgFat :: number
  avg_pct :: "number option"
  avg_calories_goal :: "number option"
  avg_protein_goal :: "number option"
  avg_carbs_goal :: "number option"
  avg_fat_goal :: "number option"
  dailyTotals :: "(string \<times> NutritionInfo) list"

datatype summary_response = NoEntriesBetween string string | NutritionSummary string string Summary

definition round1 :: "number \<Rightarrow> number" where
  "round1 x = js_div (Math_round (js_mul x (Fin 10))) (Fin 10)"

definition summarize ::
  "string \<Rightarrow> string \<Rightarrow> FoodLogEntry list \<Rightarrow> Goals option \<Rightarrow> js_error + summary_response" where
  "summarize startDate endDate entries goals =
     (if length entries = 0 then Inr (NoEntriesBetween startDate endDate)
      else
        case group_into date entries [] of
          Inl err \<Rightarrow> Inl err
        | Inr byDate \<Rightarrow>
            let dailyTotals =
                  map (\<lambda>(d, dayEntries). (d, calculateTotals dayEntries)) (object_entries byDate);
                numDays = length dailyTotals;
                avgCalories =
                  Math_round
                    (js_div (js_sum (map (\<lambda>d. calories (snd d)) dailyTotals))
                       (Fin (of_nat numDays)));
                avgProtein =
                  round1
                    (js_div (js_sum (map (\<lambda>d. protein_g (snd d)) dailyTotals))
                       (Fin (of_nat numDays)));
                avgCarbs =
                  round1
                    (js_div (js_sum (map (\<lambda>d. carbs_g (snd d)) dailyTotals))
                       (Fin (of_nat numDays)));
                avgFat =
                  round1
                    (js_div (js_sum (map (\<lambda>d. fat_g (snd d)) dailyTotals))
                       (Fin (of_nat numDays)))
            in Inr (NutritionSummary startDate endDate
                 \<lparr>numDays = numDays,
                  numEntries = length entries,
                  avgCalories = avgCalories,
                  avgProtein = avgProtein,
                  avgCarbs = avgCarbs,
                  avgFat = avgFat,
                  avg_pct =
                    (case if_truthy (Option.bind goals daily_calories) of
                       None \<Rightarrow> None
                     | Some g \<Rightarrow> Some (Math_round (js_mul (js_div avgCalories g) (Fin 100)))),
                  avg_calories_goal = if_truthy (Option.bind goals daily_calories),
                  avg_protein_goal = if_truthy (Option.bind goals goal_protein_g),
                  avg_carbs_goal = if_truthy (Option.bind goals goal_carbs_g),
                  avg_fat_goal = if_truthy (Option.bind goals goal_fat_g),
                  dailyTotals = dailyTotals\<rparr>))"

definition get_summary ::
  "string \<Rightarrow> string \<Rightarrow> store \<Rightarrow> (js_error + summary_response) \<times> store" where
  "get_summary startDate endDate st =
     (let (entries, st1) = getLogsByDateRange startDate endDate st;
          (goals, st2) = getGoals st1
      in (summarize startDate endDate entries goals, st2))"

section \<open>Notions used to state the properties\<close>

text \<open>
  A number is \<open>whole\<close> when it is a finite integer. A list of addends is
  \<open>exact_addends\<close> when all are whole and their magnitudes add up to less than
  \<open>2^53\<close>: then no sum of some of them leaves the range in which every integer
  is a double, and no addition rounds.
\<close>

fun whole :: "number \<Rightarrow> bool" where
  "whole (Fin r) = (r = of_int \<lfloor>r\<rfloor>)"
| "whole _ = False"

fun magnitude :: "number \<Rightarrow> rat" where
  "magnitude (Fin r) = \<bar>r\<bar>"
| "magnitude _ = 0"

definition exact_addends :: "number list \<Rightarrow> bool" where
  "exact_addends xs = (list_all whole xs \<and> sum_list (map magnitude xs) < 2 ^ 53)"

definition exact_entries :: "FoodLogEntry list \<Rightarrow> bool" where
  "exact_entries es =
     (exact_addends (map (\<lambda>e. or_zero (entry_calories e)) es)
      \<and> exact_addends (map (\<lambda>e. or_zero_opt (entry_protein_g e)) es)
      \<and> exact_addends (map (\<lambda>e. or_zero_opt (entry_carbs_g e)) es)
      \<and> exact_addends (map (\<lambda>e. or_zero_opt (entry_fat_g e)) es)
      \<and> exact_addends (map (\<lambda>e. or_zero_opt (entry_fiber_g e)) es))"

text \<open>
  A store that was never opened: no connection and no rows. The operations on
  a store are the functions that services/database.ts exports, the tool
  handlers, and the passing of time.
\<close>

definition fresh_store :: "string \<Rightarrow> store" where
  "fresh_store now =
     \<lparr>db_open = False, clock = now, tbl_goals = [], tbl_food_logs = [], last_rowid = 0\<rparr>"

datatype operation =
    GetGoals
  | UpdateGoals GoalsInput
  | LogFood FoodLogEntry
  | GetDailyLog string
  | GetLogsByDateRange string string
  | DeleteEntry number
  | CloseDb
  | SetGoalsTool GoalsInput
  | LogFoodTool LogFoodInput string
  | GetDailyLogTool "string option" string
  | GetSummaryTool string string
  | ClockTick string

fun apply_op :: "operation \<Rightarrow> store \<Rightarrow> store" where
  "apply_op GetGoals st = snd (getGoals st)"
| "apply_op (UpdateGoals goals) st = snd (updateGoals goals st)"
| "apply_op (LogFood entry) st = snd (logFood entry st)"
| "apply_op (GetDailyLog d) st = snd (getDailyLog d st)"
| "apply_op (GetLogsByDateRange s e) st = snd (getLogsByDateRange s e st)"
| "apply_op (DeleteEntry n) st = snd (deleteEntry n st)"
| "apply_op CloseDb st = closeDb st"
| "apply_op (SetGoalsTool args) st = snd (set_goals args st)"
| "apply_op (LogFoodTool args today) st = snd (log_food args today st)"
| "apply_op (GetDailyLogTool d today) st = snd (get_daily_log d today st)"
| "apply_op (GetSummaryTool s e) st = snd (get_summary s e st)"
| "apply_op (ClockTick now) st = st\<lparr>clock := now\<rparr>"

definition run_ops :: "operation list \<Rightarrow> store \<Rightarrow> store" where
  "run_ops ops st = foldl (\<lambda>s op. apply_op op s) st ops"

definition has_goals_row :: "store \<Rightarrow> bool" where
  "has_goals_row st = (find (\<lambda>g. goals_id g = 1) (tbl_goals st) \<noteq> None)"

definition no_nan_goals :: "Goals \<Rightarrow> bool" where
  "no_nan_goals g =
     (Some NaN \<notin> {daily_calories g, goal_protein_g g, goal_carbs_g g, goal_fat_g g})"

text \<open>Sample data for the instances below.\<close>

definition sample_entry :: "int \<Rightarrow> string \<Rightarrow> number \<Rightarrow> number option \<Rightarrow> FoodLogEntry" where
  "sample_entry i d cal prot =
     \<lparr>entry_id = i, logged_at = ''2025-01-15 12:00:00'', date = d, meal = None,
      food_name = ''oatmeal'', fdc_id = None, serving_size = Fin 1, serving_unit = ''cup'',
      entry_calories = cal, entry_protein_g = prot, entry_carbs_g = None,
      entry_fat_g = None, entry_fiber_g = None, entry_notes = None\<rparr>"

fun number_value :: "number \<Rightarrow> rat" where
  "number_value (Fin r) = r"
| "number_value _ = 0"

definition sample_store :: store where
  "sample_store = getDb (fresh_store ''2025-01-15 08:00:00'')"

definition two_days :: "FoodLogEntry list" where
  "two_days =
     [sample_entry 1 ''2025-01-14'' (Fin 1801) None,
      sample_entry 2 ''2025-01-15'' (Fin 2200) None]"

definition two_days_summary :: Summary where
  "two_days_summary =
     \<lparr>numDays = 2, numEntries = 2, avgCalories = Fin 2001, avgProtein = Fin 0,
      avgCarbs = Fin 0, avgFat = Fin 0, avg_pct = Some (Fin 100),
      avg_calories_goal = Some (Fin 2000), avg_protein_goal = Some (Fin 150),
      avg_carbs_goal = Some (Fin 250), avg_fat_goal = Some (Fin 65),
      dailyTotals =
        [(''2025-01-14'', \<lparr>calories = Fin 1801, protein_g = Fin 0, carbs_g = Fin 0,
                             fat_g = Fin 0, fiber_g = Fin 0\<rparr>),
         (''2025-01-15'', \<lparr>calories = Fin 2200, protein_g = Fin 0, carbs_g = Fin 0,
                             fat_g = Fin 0, fiber_g = Fin 0\<rparr>)]\<rparr>"

definition two_days_reversed :: "FoodLogEntry list" where
  "two_days_reversed =
     [sample_entry 2 ''2025-01-15'' (Fin 2200) None,
      sample_entry 1 ''2025-01-14'' (Fin 1801) None]"

definition two_days_store :: store where
  "two_days_store = sample_store\<lparr>tbl_food_logs := two_days_reversed\<rparr>"

definition half_row :: FoodLogEntry where
  "half_row = sample_entry 1 ''2025-01-15'' (Fin (301 / 2)) (Some (Fin (1 / 4)))"

definition half_store :: store where
  "half_store = sample_store\<lparr>tbl_food_logs := [half_row], last_rowid := 1\<rparr>"

definition half_view :: DailyLogView where
  "half_view =
     \<lparr>view_date = ''2025-01-15'',
      by_meal = [(''unspecified'', [half_row])],
      view_totals = \<lparr>calories = Fin (301 / 2), protein_g = Fin (1 / 4), carbs_g = Fin 0,
                      fat_g = Fin 0, fiber_g = Fin 0\<rparr>,
      calories_pct = Some (Fin 8),
      calories_goal = Some (Fin 2000), protein_goal = Some (Fin 150),
      carbs_goal = Some (Fin 250), fat_goal = Some (Fin 65)\<rparr>"

definition zero_goal_store :: store where
  "zero_goal_store =
     snd (set_goals \<lparr>in_daily_calories = Some (Fin 0), in_protein_g = Some (Fin 100),
                     in_carbs_g = None, in_fat_g = None\<rparr> sample_store)"

definition oatmeal_args :: LogFoodInput where
  "oatmeal_args =
     \<lparr>lf_food_name = ''oatmeal'', lf_serving_size = Fin 1, lf_serving_unit = ''cup'',
      lf_calories = Fin 150, lf_protein_g = Some (Fin 5), lf_carbs_g = None, lf_fat_g = None,
      lf_fiber_g = None, lf_meal = None, lf_date = Some ''2025-01-15'', lf_fdc_id = None,
      lf_notes = None\<rparr>"

definition oatmeal_response :: "goal_delta option \<Rightarrow> LogFoodResponse" where
  "oatmeal_response delta =
     \<lparr>logged_entry =
        (sample_entry 1 ''2025-01-15'' (Fin 150) (Some (Fin 5)))
          \<lparr>logged_at := ''2025-01-15 08:00:00''\<rparr>,
      logged_date = ''2025-01-15'',
      daily_total = \<lparr>calories = Fin 150, protein_g = Fin 5, carbs_g = Fin 0, fat_g = Fin 0,
                      fiber_g = Fin 0\<rparr>,
      calories_delta = delta\<rparr>"

section \<open>Rounding to the nearest double\<close>

text \<open>
  The binary exponent is the right one, the rounded value lies on the grid of
  that exponent within half a step of the exact value, and the test for
  overflow is the comparison with \<open>2^1024\<close>.
\<close>

lemma bitlen_pos: "0 < n \<Longrightarrow> 1 \<le> bitlen n"
  by (induction n rule: bitlen.induct) (subst bitlen.simps, simp add: add_increasing2 bitlen.simps)

lemma bitlen_bounds:
  "0 < n \<Longrightarrow> 2 ^ nat (bitlen n - 1) \<le> n \<and> n < 2 ^ nat (bitlen n)"
proof (induction n rule: bitlen.induct)
  case (1 n)
  show ?case
  proof (cases "n = 1")
    case True
    have "bitlen 1 = 1" by (simp add: bitlen.simps [of 1] bitlen.simps [of 0])
    with True show ?thesis by simp
  next
    case False
    with "1.prems" have h: "0 < n div 2" by simp
    then have ih: "2 ^ nat (bitlen (n div 2) - 1) \<le> n div 2 \<and> n div 2 < 2 ^ nat (bitlen (n div 2))"
      using "1.IH" "1.prems" by simp
    have b: "bitlen n = 1 + bitlen (n div 2)"
      using "1.prems" by (subst bitlen.simps) simp
    have p: "1 \<le> bitlen (n div 2)" using h by (rule bitlen_pos)
    then have e: "nat (bitlen (n div 2)) = Suc (nat (bitlen (n div 2) - 1))" by simp
    have "2 ^ nat (bitlen n - 1) = (2::int) ^ nat (bitlen (n div 2))" using b by simp
    also have "\<dots> = 2 * 2 ^ nat (bitlen (n div 2) - 1)" by (subst e) simp
    also have "\<dots> \<le> 2 * (n div 2)" using ih by simp
    also have "\<dots> \<le> n" by simp
    finally have lo: "2 ^ nat (bitlen n - 1) \<le> n" .
    have "n < 2 * (n div 2) + 2" by presburger
    also have "\<dots> \<le> 2 * 2 ^ nat (bitlen (n div 2))" using ih by simp
    also have "\<dots> = 2 ^ nat (bitlen n)" using b p by (simp add: nat_add_distrib)
    finally show ?thesis using lo by simp
  qed
qed

lemma bitlen_one: "bitlen 1 = 1"
  by (simp add: bitlen.simps [of 1] bitlen.simps [of 0])

lemma bitlen_le:
  assumes "0 < n" "n < 2 ^ k"
  shows "bitlen n \<le> int k"
proof (rule ccontr)
  assume "\<not> bitlen n \<le> int k"
  then have "k \<le> nat (bitlen n - 1)" by simp
  then have "(2::int) ^ k \<le> 2 ^ nat (bitlen n - 1)" by (simp add: power_increasing)
  with bitlen_bounds [OF assms(1)] assms(2) show False by simp
qed

lemma pow2_powi: "pow2 e = 2 powi e"
  by (simp add: pow2_def power_int_def inverse_eq_divide power_one_over)

lemma pow2_pos: "0 < pow2 e"
  by (simp add: pow2_powi)

lemma pow2_add: "pow2 (x + y) = pow2 x * pow2 y"
  by (simp add: pow2_powi power_int_add)

lemma pow2_nat: "pow2 (int n) = 2 ^ n"
  by (simp add: pow2_def)

lemma pow2_mono: "x \<le> y \<Longrightarrow> pow2 x \<le> pow2 y"
  by (simp add: pow2_powi power_int_increasing)

lemma bitlen_bounds_rat:
  assumes "0 < n"
  shows "pow2 (bitlen n - 1) \<le> of_int n" and "of_int n < pow2 (bitlen n)"
proof -
  have b: "1 \<le> bitlen n" using assms by (rule bitlen_pos)
  note bb = bitlen_bounds [OF assms]
  have "pow2 (bitlen n - 1) = of_int (2 ^ nat (bitlen n - 1))"
    using b by (simp add: pow2_def)
  also have "\<dots> \<le> of_int n" using bb by (simp only: of_int_le_iff)
  finally show "pow2 (bitlen n - 1) \<le> of_int n" .
  have "(of_int n :: rat) < of_int (2 ^ nat (bitlen n))" using bb by (simp only: of_int_less_iff)
  also have "\<dots> = pow2 (bitlen n)" using b by (simp add: pow2_def)
  finally show "of_int n < pow2 (bitlen n)" .
qed

lemma floor_log2_bounds:
  assumes "0 < a"
  shows "pow2 (floor_log2 a) \<le> a" and "a < pow2 (floor_log2 a + 1)"
proof -
  obtain p q where pq: "quotient_of a = (p, q)" by (cases "quotient_of a")
  then have q: "0 < q" by (rule quotient_of_denom_pos)
  from pq have a: "a = of_int p / of_int q" by (rule quotient_of_div)
  have p: "0 < p"
  proof (rule ccontr)
    assume "\<not> 0 < p"
    then have "of_int p / of_int q \<le> (0::rat)" using q by (simp add: divide_le_0_iff)
    with assms a show False by simp
  qed
  define d where "d = bitlen p - bitlen q"
  note bp = bitlen_bounds_rat [OF p] and bq = bitlen_bounds_rat [OF q]
  have qpos: "(0::rat) < of_int q" using q by simp
  have up: "a < pow2 (d + 1)"
  proof -
    have "a * of_int q = of_int p" using qpos by (simp add: a)
    also have "\<dots> < pow2 (bitlen p)" by (rule bp(2))
    also have "\<dots> = pow2 (d + 1) * pow2 (bitlen q - 1)"
      by (simp add: pow2_add [symmetric] d_def)
    also have "\<dots> \<le> pow2 (d + 1) * of_int q"
      using bq(1) pow2_pos [of "d + 1"] by (simp add: mult_left_mono)
    finally show ?thesis using qpos by (simp add: mult_less_cancel_right)
  qed
  have lo: "pow2 (d - 1) \<le> a"
  proof -
    have "pow2 (d - 1) * of_int q \<le> pow2 (d - 1) * pow2 (bitlen q)"
      using bq(2) pow2_pos [of "d - 1"] by (simp add: mult_left_mono)
    also have "\<dots> = pow2 (bitlen p - 1)"
      by (simp add: pow2_add [symmetric] d_def)
    also have "\<dots> \<le> of_int p" by (rule bp(1))
    also have "\<dots> = a * of_int q" using qpos by (simp add: a)
    finally show ?thesis using qpos by (simp add: mult_le_cancel_right)
  qed
  have f: "floor_log2 a = (if pow2 d \<le> a then d else d - 1)"
    by (simp add: floor_log2_def pq d_def)
  show "pow2 (floor_log2 a) \<le> a" using lo by (simp add: f)
  show "a < pow2 (floor_log2 a + 1)" using up by (simp add: f)
qed

lemma floor_log2_ge_iff:
  assumes "0 < a"
  shows "k \<le> floor_log2 a \<longleftrightarrow> pow2 k \<le> a"
proof
  assume "k \<le> floor_log2 a"
  then have "pow2 k \<le> pow2 (floor_log2 a)" by (rule pow2_mono)
  also have "\<dots> \<le> a" using assms by (rule floor_log2_bounds)
  finally show "pow2 k \<le> a" .
next
  assume h: "pow2 k \<le> a"
  show "k \<le> floor_log2 a"
  proof (rule ccontr)
    assume "\<not> k \<le> floor_log2 a"
    then have "floor_log2 a + 1 \<le> k" by simp
    then have "pow2 (floor_log2 a + 1) \<le> pow2 k" by (rule pow2_mono)
    with h have "pow2 (floor_log2 a + 1) \<le> a" by simp
    with floor_log2_bounds(2) [OF assms] show False by simp
  qed
qed

lemma overflow_test: "0 < r \<Longrightarrow> (1024 \<le> floor_log2 r) = (2 ^ 1024 \<le> r)"
  using floor_log2_ge_iff [of r 1024] by (simp add: pow2_def)

lemma round_half_even_error: "\<bar>of_int (round_half_even q) - q\<bar> \<le> 1 / 2"
proof -
  define d where "d = q - of_int \<lfloor>q\<rfloor>"
  have d: "0 \<le> d" "d < 1" unfolding d_def by linarith+
  have q: "q = of_int \<lfloor>q\<rfloor> + d" by (simp add: d_def)
  have r: "round_half_even q =
             (if d < 1 / 2 then \<lfloor>q\<rfloor>
              else if 1 / 2 < d then \<lfloor>q\<rfloor> + 1
              else if even \<lfloor>q\<rfloor> then \<lfloor>q\<rfloor> else \<lfloor>q\<rfloor> + 1)"
    unfolding round_half_even_def Let_def d_def by (rule refl)
  have c: "of_int (round_half_even q) - q = - d \<or> of_int (round_half_even q) - q = 1 - d"
    by (subst (2 4) q) (simp add: r)
  consider "d < 1 / 2" | "1 / 2 < d" | "d = 1 / 2" by linarith
  then show ?thesis
  proof cases
    case 1
    then have "of_int (round_half_even q) - q = - d" by (subst (2) q) (simp add: r)
    then show ?thesis using d 1 by (simp add: abs_if)
  next
    case 2
    then have "of_int (round_half_even q) - q = 1 - d" by (subst (2) q) (simp add: r)
    then show ?thesis using d 2 by (simp add: abs_if)
  next
    case 3
    then show ?thesis using c by (auto simp: abs_if)
  qed
qed

lemma rnd_nearest:
  assumes "x \<noteq> 0" and "rnd x = Fin y"
  shows "\<exists>m. \<bar>y\<bar> = of_int m * pow2 (max (floor_log2 \<bar>x\<bar> - 52) (- 1074)) \<and> 0 \<le> m"
    and "\<bar>y - x\<bar> \<le> pow2 (max (floor_log2 \<bar>x\<bar> - 52) (- 1074)) / 2"
proof -
  define e where "e = max (floor_log2 \<bar>x\<bar> - 52) (- 1074)"
  define m where "m = round_half_even (\<bar>x\<bar> / pow2 e)"
  have pe: "0 < pow2 e" by (rule pow2_pos)
  have y: "y = (if 0 < x then of_int m * pow2 e else - (of_int m * pow2 e))"
    using assms by (simp add: rnd_def Let_def e_def m_def split: if_splits)
  have m0: "0 \<le> m"
  proof -
    have "0 \<le> \<bar>x\<bar> / pow2 e" using pe by simp
    then have "0 \<le> \<lfloor>\<bar>x\<bar> / pow2 e\<rfloor>" by simp
    then show ?thesis by (simp add: m_def round_half_even_def Let_def)
  qed
  have ay: "\<bar>y\<bar> = of_int m * pow2 e"
    using m0 pe by (simp add: y abs_mult)
  show "\<exists>m. \<bar>y\<bar> = of_int m * pow2 (max (floor_log2 \<bar>x\<bar> - 52) (- 1074)) \<and> 0 \<le> m"
    using ay m0 unfolding e_def by blast
  have err: "\<bar>of_int m - \<bar>x\<bar> / pow2 e\<bar> \<le> 1 / 2"
    unfolding m_def by (rule round_half_even_error)
  have "\<bar>of_int m * pow2 e - \<bar>x\<bar>\<bar> = \<bar>of_int m - \<bar>x\<bar> / pow2 e\<bar> * pow2 e"
  proof -
    have "of_int m * pow2 e - \<bar>x\<bar> = (of_int m - \<bar>x\<bar> / pow2 e) * pow2 e"
      using pe by (simp add: field_simps)
    then show ?thesis using pe by (simp add: abs_mult)
  qed
  also have "\<dots> \<le> 1 / 2 * pow2 e"
    using err pe by (simp add: mult_right_mono)
  finally have d: "\<bar>of_int m * pow2 e - \<bar>x\<bar>\<bar> \<le> pow2 e / 2" by simp
  have "\<bar>y - x\<bar> = \<bar>of_int m * pow2 e - \<bar>x\<bar>\<bar>"
    using assms(1) by (simp add: y abs_if)
  with d show "\<bar>y - x\<bar> \<le> pow2 (max (floor_log2 \<bar>x\<bar> - 52) (- 1074)) / 2"
    by (simp add: e_def)
qed

text \<open>On the integers of magnitude below \<open>2^53\<close> rounding is the identity.\<close>

lemma floor_log2_of_int:
  assumes "0 < n"
  shows "floor_log2 (of_int n) = bitlen n - 1"
proof -
  have "pow2 (bitlen n - 1) \<le> of_int n"
  proof -
    have "0 \<le> bitlen n - 1" using bitlen_pos [OF assms] by simp
    then have "pow2 (bitlen n - 1) = of_int (2 ^ nat (bitlen n - 1))"
      by (simp add: pow2_def)
    also have "\<dots> \<le> of_int n" using bitlen_bounds [OF assms] by (simp only: of_int_le_iff)
    finally show ?thesis .
  qed
  then show ?thesis
    by (simp add: floor_log2_def quotient_of_int bitlen_one)
qed

lemma round_half_even_of_int: "round_half_even (of_int m) = m"
  by (simp add: round_half_even_def)

lemma rnd_of_nat_exact:
  assumes "0 < n" "n < 2 ^ 53"
  shows "rnd (of_int n) = Fin (of_int n)" "rnd (- of_int n) = Fin (- of_int n)"
proof -
  define k where "k = bitlen n - 1"
  have k0: "0 \<le> k" using bitlen_pos [OF assms(1)] by (simp add: k_def)
  have k52: "k \<le> 52" using bitlen_le [OF assms] by (simp add: k_def)
  define j where "j = nat (52 - k)"
  have e: "max (k - 52) (- 1074) = - int j" using k0 k52 by (simp add: j_def)
  have p: "pow2 (- int j) = 1 / 2 ^ j"
    by (auto simp: pow2_def)
  have q: "(of_int n :: rat) / pow2 (- int j) = of_int (n * 2 ^ j)"
    by (simp add: p)
  have r: "of_int (round_half_even (of_int n / pow2 (- int j))) * pow2 (- int j) = (of_int n :: rat)"
    by (simp only: q round_half_even_of_int) (simp add: p)
  have lt: "\<not> 1024 \<le> floor_log2 (of_int n)"
    using k52 by (simp add: floor_log2_of_int [OF assms(1)] k_def)
  have a: "\<bar>of_int n :: rat\<bar> = of_int n" "\<bar>- of_int n :: rat\<bar> = of_int n"
    using assms(1) by simp_all
  have nz: "(of_int n :: rat) \<noteq> 0" "0 < (of_int n :: rat)" using assms(1) by simp_all
  show "rnd (of_int n) = Fin (of_int n)"
    using nz lt
    by (simp add: rnd_def Let_def a floor_log2_of_int [OF assms(1)] k_def [symmetric] e r)
  show "rnd (- of_int n) = Fin (- of_int n)"
    using nz lt
    by (simp add: rnd_def Let_def a floor_log2_of_int [OF assms(1)] k_def [symmetric] e r)
qed

lemma rnd_int_exact:
  assumes "\<bar>n\<bar> < 2 ^ 53"
  shows "rnd (of_int n) = Fin (of_int n)"
proof -
  consider "n = 0" | "0 < n" | "n < 0" by linarith
  then show ?thesis
  proof cases
    case 1 then show ?thesis by (simp add: rnd_def)
  next
    case 2 then show ?thesis using rnd_of_nat_exact(1) [of n] assms by simp
  next
    case 3
    then have "0 < - n" "- n < 2 ^ 53" using assms by simp_all
    from rnd_of_nat_exact(2) [OF this] show ?thesis by simp
  qed
qed

lemma rnd_zero: "rnd 0 = Fin 0"
  by (simp add: rnd_def)

lemma rnd_numeral:
  "(numeral n :: int) < 2 ^ 53 \<Longrightarrow> rnd (numeral n) = Fin (numeral n)"
  using rnd_int_exact [of "numeral n"] by simp

lemma rnd_one: "rnd 1 = Fin 1"
  using rnd_int_exact [of 1] by simp

lemmas rnd_simps = rnd_zero rnd_one rnd_numeral

text \<open>Some values.\<close>

lemma floor_half: "\<lfloor>1 / 2 :: rat\<rfloor> = 0"
  by (simp add: floor_eq_iff)

lemma round1_zero: "round1 (Fin 0) = Fin 0"
  by (simp add: round1_def rnd_zero floor_half)

lemma double_tenths:
  "rnd (1 / 10) = Fin (3602879701896397 / 2 ^ 55)"
  "rnd (1 / 5) = Fin (3602879701896397 / 2 ^ 54)"
  "rnd (3 / 10) = Fin (5404319552844595 / 2 ^ 54)"
  by code_simp+

lemma rnd_halves:
  "rnd (301 / 2) = Fin (301 / 2)" "rnd (1 / 4) = Fin (1 / 4)" "rnd (5 / 2) = Fin (5 / 2)"
  by code_simp+

lemma half_4001: "rnd (4001 / 2) = Fin (4001 / 2)"
  by code_simp

lemma pct_2001: "Math_round (js_mul (js_div (Fin 2001) (Fin 2000)) (Fin 100)) = Fin 100"
  by code_simp

lemma pct_half: "Math_round (js_mul (js_div (Fin (301 / 2)) (Fin 2000)) (Fin 100)) = Fin 8"
  by code_simp

lemma round1_quarter: "round1 (Fin (1 / 4)) = Fin (5404319552844595 / 2 ^ 54)"
proof -
  have "js_mul (Fin (1 / 4)) (Fin 10) = Fin (5 / 2)" by (simp add: rnd_halves)
  moreover have "Math_round (Fin (5 / 2)) = Fin 3" by simp
  moreover have "js_div (Fin 3) (Fin 10) = Fin (5404319552844595 / 2 ^ 54)"
    by (simp add: double_tenths)
  ultimately show ?thesis by (simp only: round1_def)
qed

lemma Math_round_whole: "whole (Math_round x) \<or> Math_round x \<in> {PInf, NInf, NaN}"
  by (cases x) simp_all

lemma round1_one_decimal:
  "(\<exists>k. round1 x = js_div (Fin (of_int k)) (Fin 10)) \<or> round1 x \<in> {PInf, NInf, NaN}"
proof (cases "js_mul x (Fin 10)")
  case (Fin y)
  then have "round1 x = js_div (Fin (of_int \<lfloor>y + 1 / 2\<rfloor>)) (Fin 10)"
    by (simp add: round1_def)
  then show ?thesis by blast
qed (simp_all add: round1_def signed_inf_def)

section \<open>Sums that do not round\<close>

lemma whole_cases: "whole x \<Longrightarrow> \<exists>n. x = Fin (of_int n)"
  by (cases x) (auto intro: exI [of _ "\<lfloor>_\<rfloor>"])

lemma js_add_int_exact:
  "\<bar>a + b\<bar> < 2 ^ 53 \<Longrightarrow> js_add (Fin (of_int a)) (Fin (of_int b)) = Fin (of_int (a + b))"
  using rnd_int_exact [of "a + b"] by simp

lemma magnitude_nonneg: "0 \<le> magnitude x"
  by (cases x) simp_all

lemma sum_magnitude_nonneg: "0 \<le> sum_list (map magnitude xs)"
  by (induction xs) (simp_all add: magnitude_nonneg)

lemma abs_int_bound:
  assumes "\<bar>of_int m :: rat\<bar> < 2 ^ 53"
  shows "\<bar>m\<bar> < 2 ^ 53"
proof -
  have "(of_int \<bar>m\<bar> :: rat) < of_int (2 ^ 53)" using assms by simp
  then show ?thesis by (simp only: of_int_less_iff)
qed

lemma foldl_js_add_exact:
  "list_all whole xs \<Longrightarrow> \<bar>of_int a\<bar> + sum_list (map magnitude xs) < 2 ^ 53 \<Longrightarrow>
     foldl js_add (Fin (of_int a)) xs = Fin (of_int a + sum_list (map number_value xs))"
proof (induction xs arbitrary: a)
  case Nil
  then show ?case by simp
next
  case (Cons x xs)
  from Cons.prems(1) have wx: "whole x" and wxs: "list_all whole xs" by simp_all
  from wx obtain n where x: "x = Fin (of_int n)"
    using whole_cases [of x] by auto
  have mx: "magnitude x = \<bar>of_int n\<bar>" by (simp add: x)
  have vx: "number_value x = of_int n" by (simp add: x)
  let ?S = "sum_list (map magnitude xs)"
  have nn: "0 \<le> ?S" by (rule sum_magnitude_nonneg)
  have b: "\<bar>of_int a :: rat\<bar> + (\<bar>of_int n\<bar> + ?S) < 2 ^ 53"
    using Cons.prems(2) by (simp only: list.map sum_list.Cons mx)
  have tri: "\<bar>of_int (a + n) :: rat\<bar> \<le> \<bar>of_int a\<bar> + \<bar>of_int n\<bar>"
    by (simp only: of_int_add abs_triangle_ineq)
  from b nn tri have c: "\<bar>of_int (a + n) :: rat\<bar> < 2 ^ 53" by linarith
  have d: "\<bar>a + n\<bar> < 2 ^ 53" using c by (rule abs_int_bound)
  have step: "js_add (Fin (of_int a)) x = Fin (of_int (a + n))"
    unfolding x by (rule js_add_int_exact [OF d])
  from b tri have e: "\<bar>of_int (a + n) :: rat\<bar> + ?S < 2 ^ 53" by linarith
  have ih: "foldl js_add (Fin (of_int (a + n))) xs
          = Fin (of_int (a + n) + sum_list (map number_value xs))"
    using wxs e by (rule Cons.IH)
  have "foldl js_add (Fin (of_int a)) (x # xs) = foldl js_add (Fin (of_int (a + n))) xs"
    by (simp only: foldl_Cons step)
  also note ih
  also have "of_int (a + n) + sum_list (map number_value xs)
               = (of_int a :: rat) + sum_list (map number_value (x # xs))"
    by (simp only: list.map sum_list.Cons vx of_int_add add.assoc)
  finally show ?case .
qed

lemma js_sum_exact:
  assumes "exact_addends xs"
  shows "js_sum xs = Fin (sum_list (map number_value xs))"
proof -
  from assms have w: "list_all whole xs" and s: "sum_list (map magnitude xs) < 2 ^ 53"
    by (simp_all add: exact_addends_def)
  have "\<bar>of_int 0 :: rat\<bar> + sum_list (map magnitude xs) < 2 ^ 53" using s by simp
  from foldl_js_add_exact [OF w this] show ?thesis by (simp add: js_sum_def)
qed

lemma sum_list_mset_cong:
  fixes xs ys :: "rat list"
  assumes "mset ys = mset xs"
  shows "sum_list ys = sum_list xs"
proof -
  have "sum_mset (mset ys) = sum_mset (mset xs)" using assms by (simp only:)
  then show ?thesis by (simp only: sum_mset_sum_list)
qed

lemma exact_addends_mset:
  assumes "mset ys = mset xs"
  shows "exact_addends ys = exact_addends xs"
proof -
  have "set ys = set xs" using assms by (rule mset_eq_setD)
  moreover have "mset (map magnitude ys) = mset (map magnitude xs)" using assms by simp
  then have "sum_list (map magnitude ys) = sum_list (map magnitude xs)"
    by (rule sum_list_mset_cong)
  ultimately show ?thesis by (simp add: exact_addends_def list_all_iff)
qed

lemma js_sum_permute:
  assumes "mset ys = mset xs" "exact_addends xs"
  shows "js_sum ys = js_sum xs"
proof -
  have "mset (map number_value ys) = mset (map number_value xs)" using assms(1) by simp
  then have "sum_list (map number_value ys) = sum_list (map number_value xs)"
    by (rule sum_list_mset_cong)
  moreover have "exact_addends ys"
    using assms(2) by (simp only: exact_addends_mset [OF assms(1)])
  ultimately show ?thesis using assms(2) by (simp add: js_sum_exact)
qed

lemma js_sum_map_permute:
  assumes "mset es' = mset es" "exact_addends (map f es)"
  shows "js_sum (map f es') = js_sum (map f es)"
proof (rule js_sum_permute)
  show "mset (map f es') = mset (map f es)" using assms(1) by simp
  show "exact_addends (map f es)" by (rule assms(2))
qed

section \<open>The fields of calculateTotals\<close>

lemma foldl_add_entry_calories:
  "calories (foldl add_entry t es) =
     foldl js_add (calories t) (map (\<lambda>e. or_zero (entry_calories e)) es)"
  by (induction es arbitrary: t) (simp_all add: add_entry_def)

lemma foldl_add_entry_protein:
  "protein_g (foldl add_entry t es) =
     foldl js_add (protein_g t) (map (\<lambda>e. or_zero_opt (entry_protein_g e)) es)"
  by (induction es arbitrary: t) (simp_all add: add_entry_def)

lemma foldl_add_entry_carbs:
  "carbs_g (foldl add_entry t es) =
     foldl js_add (carbs_g t) (map (\<lambda>e. or_zero_opt (entry_carbs_g e)) es)"
  by (induction es arbitrary: t) (simp_all add: add_entry_def)

lemma foldl_add_entry_fat:
  "fat_g (foldl add_entry t es) =
     foldl js_add (fat_g t) (map (\<lambda>e. or_zero_opt (entry_fat_g e)) es)"
  by (induction es arbitrary: t) (simp_all add: add_entry_def)

lemma foldl_add_entry_fiber:
  "fiber_g (foldl add_entry t es) =
     foldl js_add (fiber_g t) (map (\<lambda>e. or_zero_opt (entry_fiber_g e)) es)"
  by (induction es arbitrary: t) (simp_all add: add_entry_def)

lemma calculateTotals_fields:
  "calculateTotals es =
     \<lparr>calories = js_sum (map (\<lambda>e. or_zero (entry_calories e)) es),
      protein_g = js_sum (map (\<lambda>e. or_zero_opt (entry_protein_g e)) es),
      carbs_g = js_sum (map (\<lambda>e. or_zero_opt (entry_carbs_g e)) es),
      fat_g = js_sum (map (\<lambda>e. or_zero_opt (entry_fat_g e)) es),
      fiber_g = js_sum (map (\<lambda>e. or_zero_opt (entry_fiber_g e)) es)\<rparr>"
  unfolding calculateTotals_def js_sum_def
  by (rule NutritionInfo.equality)
     (simp_all add: foldl_add_entry_calories foldl_add_entry_protein foldl_add_entry_carbs
        foldl_add_entry_fat foldl_add_entry_fiber zero_totals_def)

lemma calculateTotals_single:
  "calculateTotals [sample_entry i d (Fin (numeral n)) None]
     = \<lparr>calories = rnd (numeral n), protein_g = Fin 0, carbs_g = Fin 0,
        fat_g = Fin 0, fiber_g = Fin 0\<rparr>"
  by (simp add: calculateTotals_fields js_sum_def sample_entry_def or_zero_def truthy_def
      rnd_simps)

lemma calculateTotals_half_row:
  "calculateTotals [half_row] =
     \<lparr>calories = Fin (301 / 2), protein_g = Fin (1 / 4), carbs_g = Fin 0,
      fat_g = Fin 0, fiber_g = Fin 0\<rparr>"
  by (simp add: calculateTotals_fields js_sum_def half_row_def sample_entry_def or_zero_def
      truthy_def rnd_halves rnd_zero)

lemma oatmeal_total:
  "calculateTotals [(sample_entry 1 ''2025-01-15'' (Fin 150) (Some (Fin 5)))
                      \<lparr>logged_at := ''2025-01-15 08:00:00''\<rparr>]
     = \<lparr>calories = Fin 150, protein_g = Fin 5, carbs_g = Fin 0, fat_g = Fin 0, fiber_g = Fin 0\<rparr>"
  by (simp add: calculateTotals_fields js_sum_def sample_entry_def or_zero_def truthy_def
      rnd_simps)

section \<open>The store and the goals row\<close>

lemma find_map_same_id:
  assumes "\<And>g. goals_id (f g) = goals_id g"
  shows "find (\<lambda>g. goals_id g = 1) (map (\<lambda>g. if goals_id g = 1 then f g else g) gs) =
     map_option f (find (\<lambda>g. goals_id g = 1) gs)"
  using assms by (induction gs) auto

lemma getDb_open: "db_open (getDb st)"
  by (simp add: getDb_def initializeSchema_def)

lemma getDb_idem: "db_open st \<Longrightarrow> getDb st = st"
  by (simp add: getDb_def)

lemma getDb_getDb: "getDb (getDb st) = getDb st"
  by (simp add: getDb_idem getDb_open)

lemma getDb_has_goals: "has_goals_row st \<Longrightarrow> has_goals_row (getDb st)"
  by (auto simp: has_goals_row_def getDb_def initializeSchema_def)

lemma getDb_fresh_store:
  "getDb (fresh_store now) = (fresh_store now)\<lparr>db_open := True, tbl_goals := [default_goals now]\<rparr>"
  by (simp add: getDb_def initializeSchema_def fresh_store_def)

lemma getGoals_snd: "snd (getGoals st) = getDb st"
  by (simp add: getGoals_def Let_def)

lemma getGoals_fst: "fst (getGoals st) = find (\<lambda>g. goals_id g = 1) (tbl_goals (getDb st))"
  by (simp add: getGoals_def Let_def)

lemma getGoals_getDb: "fst (getGoals (getDb st)) = fst (getGoals st)"
  by (simp add: getGoals_fst getDb_getDb)

lemma getGoals_not_None: "has_goals_row st \<Longrightarrow> fst (getGoals st) \<noteq> None"
  using getDb_has_goals [of st] by (simp add: getGoals_fst has_goals_row_def)

lemma update_goals_row_open: "db_open (update_goals_row c p cb f st) = db_open st"
  by (simp add: update_goals_row_def)

lemma update_goals_row_find:
  "find (\<lambda>g. goals_id g = 1) (tbl_goals (update_goals_row c p cb f st)) =
     map_option
       (\<lambda>g. g\<lparr>daily_calories := sql_real c, goal_protein_g := sql_real p,
               goal_carbs_g := sql_real cb, goal_fat_g := sql_real f,
               updated_at := clock st\<rparr>)
       (find (\<lambda>g. goals_id g = 1) (tbl_goals st))"
  unfolding update_goals_row_def by (simp add: find_map_same_id)

lemma updateGoals_open:
  assumes "db_open st"
  shows "updateGoals goals st =
     (let current = find (\<lambda>g. goals_id g = 1) (tbl_goals st);
          st3 = update_goals_row
                  (nullish_or (in_daily_calories goals) (Option.bind current daily_calories))
                  (nullish_or (in_protein_g goals) (Option.bind current goal_protein_g))
                  (nullish_or (in_carbs_g goals) (Option.bind current goal_carbs_g))
                  (nullish_or (in_fat_g goals) (Option.bind current goal_fat_g)) st
      in (find (\<lambda>g. goals_id g = 1) (tbl_goals st3), st3))"
  using assms
  by (simp add: updateGoals_def getGoals_def Let_def getDb_idem update_goals_row_open)

lemma updateGoals_getDb: "updateGoals goals st = updateGoals goals (getDb st)"
  by (simp add: updateGoals_def getDb_getDb)

lemma updateGoals_has_goals:
  assumes "has_goals_row st"
  shows "has_goals_row (snd (updateGoals goals st))"
proof -
  have h: "has_goals_row (getDb st)" using assms by (rule getDb_has_goals)
  have "has_goals_row (snd (updateGoals goals (getDb st)))"
    using h
    by (simp add: updateGoals_open [OF getDb_open] Let_def has_goals_row_def
        update_goals_row_find)
  then show ?thesis by (simp add: updateGoals_getDb [of goals st])
qed

lemma logFood_has_goals: "has_goals_row st \<Longrightarrow> has_goals_row (snd (logFood entry st))"
  using getDb_has_goals [of st]
  by (simp add: logFood_def Let_def has_goals_row_def)

lemma logFood_goals:
  "tbl_goals (snd (logFood entry st)) = tbl_goals (getDb st)"
  "db_open (snd (logFood entry st))"
  by (simp_all add: logFood_def Let_def getDb_open)

lemma getGoals_after_logFood: "fst (getGoals (snd (logFood entry st))) = fst (getGoals st)"
  by (simp add: getGoals_fst getDb_idem logFood_goals)

lemma getDailyLog_snd: "snd (getDailyLog d st) = getDb st"
  by (simp add: getDailyLog_def Let_def)

lemma getLogsByDateRange_snd: "snd (getLogsByDateRange s e st) = getDb st"
  by (simp add: getLogsByDateRange_def Let_def)

lemma deleteEntry_has_goals: "has_goals_row st \<Longrightarrow> has_goals_row (snd (deleteEntry n st))"
  using getDb_has_goals [of st]
  by (simp add: deleteEntry_def Let_def has_goals_row_def)

lemma closeDb_has_goals: "has_goals_row st \<Longrightarrow> has_goals_row (closeDb st)"
  by (simp add: closeDb_def has_goals_row_def)

lemma set_goals_snd:
  "snd (set_goals args st) =
     (case SetGoalsSchema_parse args of
        Inl err \<Rightarrow> st
      | Inr input \<Rightarrow>
          if \<not> truthy_opt (in_daily_calories input) \<and> \<not> truthy_opt (in_protein_g input)
             \<and> \<not> truthy_opt (in_carbs_g input) \<and> \<not> truthy_opt (in_fat_g input)
          then getDb st else snd (updateGoals input st))"
  by (simp add: set_goals_def case_prod_beta getGoals_snd split: sum.splits option.splits)

lemma set_goals_has_goals: "has_goals_row st \<Longrightarrow> has_goals_row (snd (set_goals args st))"
  using getDb_has_goals [of st] updateGoals_has_goals [of st]
  by (simp add: set_goals_snd split: sum.splits)

lemma log_food_has_goals:
  assumes "has_goals_row st"
  shows "has_goals_row (snd (log_food args today st))"
proof (cases "LogFoodSchema_parse args")
  case (Inl err)
  then show ?thesis using assms by (simp add: log_food_def)
next
  case (Inr input)
  have h: "has_goals_row (snd (logFood (new_entry input today) st))"
    using assms by (rule logFood_has_goals)
  then have h2: "has_goals_row (getDb (getDb (snd (logFood (new_entry input today) st))))"
    by (intro getDb_has_goals)
  show ?thesis
    using h h2 Inr
    by (simp add: log_food_def case_prod_beta Let_def getGoals_snd getDailyLog_snd
        split: sum.splits)
qed

lemma get_daily_log_snd: "snd (get_daily_log d today st) = getDb st"
  by (simp add: get_daily_log_def case_prod_beta Let_def getGoals_snd getDailyLog_snd getDb_getDb
      split: sum.splits)

lemma get_summary_snd: "snd (get_summary s e st) = getDb st"
  by (simp add: get_summary_def case_prod_beta getGoals_snd getLogsByDateRange_snd getDb_getDb)

lemma apply_op_has_goals: "has_goals_row st \<Longrightarrow> has_goals_row (apply_op op st)"
  by (cases op)
     (simp_all add: getDb_has_goals updateGoals_has_goals logFood_has_goals
        deleteEntry_has_goals closeDb_has_goals set_goals_has_goals log_food_has_goals
        getGoals_snd getDailyLog_snd getLogsByDateRange_snd get_daily_log_snd get_summary_snd,
      simp add: has_goals_row_def)

lemma run_ops_has_goals: "has_goals_row st \<Longrightarrow> has_goals_row (run_ops ops st)"
  unfolding run_ops_def
  by (induction ops arbitrary: st) (simp_all add: apply_op_has_goals)

lemma sorted_map_fst:
  fixes ps :: "('a::linorder \<times> 'b::linorder) list"
  assumes "sorted ps"
  shows "sorted (map fst ps)"
  using assms
  by (induction ps) (auto simp: less_eq_prod_def)

lemma getLogsByDateRange_sorted:
  "sorted (map date (fst (getLogsByDateRange startDate endDate st)))"
proof -
  let ?rows = "filter (\<lambda>e. startDate \<le> date e \<and> date e \<le> endDate) (tbl_food_logs (getDb st))"
  have "sorted (map (\<lambda>e. (date e, logged_at e)) (sort_key (\<lambda>e. (date e, logged_at e)) ?rows))"
    by (rule sorted_sort_key)
  then have "sorted (map fst (map (\<lambda>e. (date e, logged_at e))
                (sort_key (\<lambda>e. (date e, logged_at e)) ?rows)))"
    by (rule sorted_map_fst)
  then show ?thesis
    by (simp add: getLogsByDateRange_def Let_def comp_def)
qed

lemma getLogsByDateRange_subset:
  "set (fst (getLogsByDateRange startDate endDate st)) \<subseteq> set (tbl_food_logs st)"
  by (auto simp: getLogsByDateRange_def Let_def getDb_def initializeSchema_def)

section \<open>Grouping\<close>

lemma map_fst_push: "map fst (map (\<lambda>(k, v). if k = x then (k, v @ [e]) else (k, v)) obj) = map fst obj"
  by (induction obj) auto

lemma map_of_push:
  "map_of (map (\<lambda>(k, v). if k = x then (k, v @ [e]) else (k, v)) obj) k =
     (if k = x then map_option (\<lambda>v. v @ [e]) (map_of obj k) else map_of obj k)"
  by (induction obj) auto

lemma map_of_new_key:
  "map_of obj x = None \<Longrightarrow>
     map_of (obj @ [(x, v)]) k = (if k = x then Some v else map_of obj k)"
  by (auto simp: map_add_def split: option.splits)

lemma group_into_spec:
  assumes "group_into key es obj = Inr obj'" and "distinct (map fst obj)"
  shows "distinct (map fst obj')
         \<and> set (map fst obj') = set (map fst obj) \<union> key ` set es
         \<and> (\<forall>k. map_of obj' k =
               (case map_of obj k of
                  Some v \<Rightarrow> Some (v @ filter (\<lambda>e. key e = k) es)
                | None \<Rightarrow> if k \<in> key ` set es then Some (filter (\<lambda>e. key e = k) es) else None))"
  using assms
proof (induction es arbitrary: obj)
  case Nil
  then show ?case by (auto split: option.splits)
next
  case (Cons e es)
  show ?case
  proof (cases "map_of obj (key e)")
    case (Some v0)
    let ?obj1 = "map (\<lambda>(k, v). if k = key e then (k, v @ [e]) else (k, v)) obj"
    from Cons.prems(1) Some have g: "group_into key es ?obj1 = Inr obj'" by simp
    have d: "distinct (map fst ?obj1)" using Cons.prems(2) by (simp only: map_fst_push)
    note ih = Cons.IH [OF g d]
    have mem: "key e \<in> set (map fst obj)"
      using Some by (metis map_of_eq_None_iff option.distinct(1) set_map)
    show ?thesis
    proof (intro conjI allI)
      show "distinct (map fst obj')" using ih by blast
      show "set (map fst obj') = set (map fst obj) \<union> key ` set (e # es)"
        using ih mem by (auto simp only: map_fst_push set_simps image_insert)
      fix k
      show "map_of obj' k =
               (case map_of obj k of
                  Some v \<Rightarrow> Some (v @ filter (\<lambda>e. key e = k) (e # es))
                | None \<Rightarrow> if k \<in> key ` set (e # es) then Some (filter (\<lambda>e. key e = k) (e # es)) else None)"
        using ih Some by (auto simp: map_of_push split: option.splits)
    qed
  next
    case None
    then have np: "key e \<notin> set object_prototype_keys"
      using Cons.prems(1) by (auto split: if_splits)
    let ?obj1 = "obj @ [(key e, [e])]"
    from Cons.prems(1) None np have g: "group_into key es ?obj1 = Inr obj'" by simp
    have nk: "key e \<notin> set (map fst obj)"
      using None by (simp add: map_of_eq_None_iff)
    have d: "distinct (map fst ?obj1)" using Cons.prems(2) nk by simp
    note ih = Cons.IH [OF g d]
    show ?thesis
    proof (intro conjI allI)
      show "distinct (map fst obj')" using ih by blast
      show "set (map fst obj') = set (map fst obj) \<union> key ` set (e # es)"
        using ih by auto
      fix k
      show "map_of obj' k =
               (case map_of obj k of
                  Some v \<Rightarrow> Some (v @ filter (\<lambda>e. key e = k) (e # es))
                | None \<Rightarrow> if k \<in> key ` set (e # es) then Some (filter (\<lambda>e. key e = k) (e # es)) else None)"
        using ih None by (auto simp: map_of_new_key split: option.splits)
    qed
  qed
qed

lemma group_into_date_spec:
  assumes "group_into key entries [] = Inr byDate"
  shows "distinct (map fst byDate)"
    and "set (map fst byDate) = key ` set entries"
    and "(k, v) \<in> set byDate \<Longrightarrow> v = filter (\<lambda>e. key e = k) entries"
proof -
  note s = group_into_spec [OF assms, simplified]
  show d: "distinct (map fst byDate)" using s by blast
  show "set (map fst byDate) = key ` set entries" using s by simp
  assume "(k, v) \<in> set byDate"
  then have "map_of byDate k = Some v" using d by simp
  moreover have "map_of byDate k =
      (if k \<in> key ` set entries then Some (filter (\<lambda>e. key e = k) entries) else None)"
    using s by blast
  ultimately show "v = filter (\<lambda>e. key e = k) entries" by (simp split: if_splits)
qed

lemma group_into_sorted:
  assumes "group_into key es obj = Inr obj'" and "sorted (map fst obj @ map key es)"
  shows "sorted (map fst obj')"
  using assms
proof (induction es arbitrary: obj)
  case Nil
  then show ?case by simp
next
  case (Cons e es)
  show ?case
  proof (cases "map_of obj (key e)")
    case (Some v0)
    let ?obj1 = "map (\<lambda>(k, v). if k = key e then (k, v @ [e]) else (k, v)) obj"
    from Cons.prems(1) Some have g: "group_into key es ?obj1 = Inr obj'" by simp
    have "sorted (map fst obj @ map key es)"
      using Cons.prems(2) by (auto simp: sorted_append)
    then have "sorted (map fst ?obj1 @ map key es)" by (simp only: map_fst_push)
    with g show ?thesis by (rule Cons.IH)
  next
    case None
    then have np: "key e \<notin> set object_prototype_keys"
      using Cons.prems(1) by (auto split: if_splits)
    let ?obj1 = "obj @ [(key e, [e])]"
    from Cons.prems(1) None np have g: "group_into key es ?obj1 = Inr obj'" by simp
    have "sorted (map fst ?obj1 @ map key es)" using Cons.prems(2) by simp
    with g show ?thesis by (rule Cons.IH)
  qed
qed

lemma group_into_total:
  assumes "\<forall>e \<in> set es. key e \<notin> set object_prototype_keys"
  shows "\<exists>obj'. group_into key es obj = Inr obj'"
  using assms
  by (induction es arbitrary: obj) (auto split: option.splits)

lemma mset_object_entries: "mset (object_entries obj) = mset obj"
  by (simp add: object_entries_def)

lemma set_object_entries: "set (object_entries obj) = set obj"
  using mset_object_entries [of obj] by (metis set_mset_mset)

lemma distinct_keys_object_entries:
  "distinct (map fst (object_entries obj)) = distinct (map fst obj)"
proof -
  have "mset (map fst (object_entries obj)) = mset (map fst obj)"
    by (simp add: mset_object_entries)
  then show ?thesis by (rule mset_eq_imp_distinct_iff)
qed

lemma object_entries_no_index:
  assumes "\<forall>k \<in> set (map fst obj). \<not> is_array_index k"
  shows "object_entries obj = obj"
proof -
  have "filter (\<lambda>p. is_array_index (fst p)) obj = []"
    using assms by (auto simp: filter_empty_conv)
  moreover have "filter (\<lambda>p. \<not> is_array_index (fst p)) obj = obj"
    using assms by (auto simp: filter_id_conv)
  ultimately show ?thesis by (simp add: object_entries_def)
qed

lemma is_digit_dash: "\<not> is_digit CHR ''-''"
  by (simp add: is_digit_def)

lemma iso_date_not_index: "is_iso_date s \<Longrightarrow> \<not> is_array_index s"
proof
  assume a: "is_iso_date s" and b: "is_array_index s"
  from a obtain y1 y2 y3 y4 s1 m1 m2 s2 d1 d2
    where s: "s = [y1, y2, y3, y4, s1, m1, m2, s2, d1, d2]"
    by (cases s rule: is_iso_date.cases) auto
  with a have "s1 = CHR ''-''" by simp
  moreover from b s have "is_digit s1" by (simp add: is_array_index_def)
  ultimately show False by (simp add: is_digit_dash)
qed

lemma iso_date_length: "is_iso_date s \<Longrightarrow> length s = 10"
  by (cases s rule: is_iso_date.cases) auto

lemma iso_date_not_prototype: "is_iso_date s \<Longrightarrow> s \<notin> set object_prototype_keys"
  by (auto simp: object_prototype_keys_def dest: iso_date_length)

lemma sample_dates_not_index:
  "\<not> is_array_index ''2025-01-14''" "\<not> is_array_index ''2025-01-15''"
  by (rule iso_date_not_index, simp add: is_digit_def)+

lemma unspecified_not_index: "\<not> is_array_index ''unspecified''"
  by (simp add: is_array_index_def is_digit_def)

section \<open>What the handlers return\<close>

lemma summarize_cases:
  assumes "summarize a b entries goals = Inr (NutritionSummary a' b' sm)"
  obtains byDate where
    "entries \<noteq> []" "group_into date entries [] = Inr byDate"
    "dailyTotals sm = map (\<lambda>(d, dayEntries). (d, calculateTotals dayEntries)) (object_entries byDate)"
    "numDays sm = length (dailyTotals sm)"
    "numEntries sm = length entries"
    "avgCalories sm =
       Math_round (js_div (js_sum (map (\<lambda>d. calories (snd d)) (dailyTotals sm)))
                     (Fin (of_nat (numDays sm))))"
    "avgProtein sm =
       round1 (js_div (js_sum (map (\<lambda>d. protein_g (snd d)) (dailyTotals sm)))
                 (Fin (of_nat (numDays sm))))"
    "avgCarbs sm =
       round1 (js_div (js_sum (map (\<lambda>d. carbs_g (snd d)) (dailyTotals sm)))
                 (Fin (of_nat (numDays sm))))"
    "avgFat sm =
       round1 (js_div (js_sum (map (\<lambda>d. fat_g (snd d)) (dailyTotals sm)))
                 (Fin (of_nat (numDays sm))))"
    "avg_pct sm =
       (case if_truthy (Option.bind goals daily_calories) of
          None \<Rightarrow> None
        | Some g \<Rightarrow> Some (Math_round (js_mul (js_div (avgCalories sm) g) (Fin 100))))"
proof -
  from assms have ne: "entries \<noteq> []"
    by (auto simp: summarize_def split: if_splits)
  from assms ne obtain byDate where g: "group_into date entries [] = Inr byDate"
    by (auto simp: summarize_def split: sum.splits)
  let ?dt = "map (\<lambda>(d, dayEntries). (d, calculateTotals dayEntries)) (object_entries byDate)"
  from assms ne g have eq:
    "sm = \<lparr>numDays = length ?dt,
          numEntries = length entries,
          avgCalories = Math_round (js_div (js_sum (map (\<lambda>d. calories (snd d)) ?dt))
               (Fin (of_nat (length ?dt)))),
          avgProtein = round1 (js_div (js_sum (map (\<lambda>d. protein_g (snd d)) ?dt))
               (Fin (of_nat (length ?dt)))),
          avgCarbs = round1 (js_div (js_sum (map (\<lambda>d. carbs_g (snd d)) ?dt))
               (Fin (of_nat (length ?dt)))),
          avgFat = round1 (js_div (js_sum (map (\<lambda>d. fat_g (snd d)) ?dt))
               (Fin (of_nat (length ?dt)))),
          avg_pct = (case if_truthy (Option.bind goals daily_calories) of
                       None \<Rightarrow> None
                     | Some g \<Rightarrow> Some (Math_round (js_mul (js_div
                         (Math_round (js_div (js_sum (map (\<lambda>d. calories (snd d)) ?dt))
                            (Fin (of_nat (length ?dt)))))
                          g) (Fin 100)))),
          avg_calories_goal = if_truthy (Option.bind goals daily_calories),
          avg_protein_goal = if_truthy (Option.bind goals goal_protein_g),
          avg_carbs_goal = if_truthy (Option.bind goals goal_carbs_g),
          avg_fat_goal = if_truthy (Option.bind goals goal_fat_g),
          dailyTotals = ?dt\<rparr>"
    unfolding summarize_def Let_def by (simp only: list.size(3) length_0_conv if_False sum.case sum.inject summary_response.inject)
  have
    "dailyTotals sm = ?dt"
    "numDays sm = length (dailyTotals sm)"
    "numEntries sm = length entries"
    "avgCalories sm =
       Math_round (js_div (js_sum (map (\<lambda>d. calories (snd d)) (dailyTotals sm)))
                     (Fin (of_nat (numDays sm))))"
    "avgProtein sm =
       round1 (js_div (js_sum (map (\<lambda>d. protein_g (snd d)) (dailyTotals sm)))
                 (Fin (of_nat (numDays sm))))"
    "avgCarbs sm =
       round1 (js_div (js_sum (map (\<lambda>d. carbs_g (snd d)) (dailyTotals sm)))
                 (Fin (of_nat (numDays sm))))"
    "avgFat sm =
       round1 (js_div (js_sum (map (\<lambda>d. fat_g (snd d)) (dailyTotals sm)))
                 (Fin (of_nat (numDays sm))))"
    "avg_pct sm =
       (case if_truthy (Option.bind goals daily_calories) of
          None \<Rightarrow> None
        | Some g \<Rightarrow> Some (Math_round (js_mul (js_div (avgCalories sm) g) (Fin 100))))"
    by (subst eq, simp only: Summary.simps)+
  with ne g show ?thesis by (rule that)
qed

lemma summarize_daily_totals:
  assumes "summarize a b entries goals = Inr (NutritionSummary a' b' sm)"
  shows "distinct (map fst (dailyTotals sm))"
    and "set (map fst (dailyTotals sm)) = date ` set entries"
    and "\<forall>(d, t) \<in> set (dailyTotals sm).
           t = calculateTotals (filter (\<lambda>e. date e = d) entries)"
proof -
  from assms obtain byDate where
    g: "group_into date entries [] = Inr byDate" and
    dt: "dailyTotals sm =
           map (\<lambda>(d, dayEntries). (d, calculateTotals dayEntries)) (object_entries byDate)"
    by (rule summarize_cases)
  note gs = group_into_date_spec [OF g]
  have keys: "map fst (dailyTotals sm) = map fst (object_entries byDate)"
    by (simp add: dt case_prod_beta)
  show "distinct (map fst (dailyTotals sm))"
    by (simp only: keys distinct_keys_object_entries gs(1))
  have "set (map fst (object_entries byDate)) = set (map fst byDate)"
    by (simp add: set_object_entries)
  then show "set (map fst (dailyTotals sm)) = date ` set entries"
    by (simp only: keys gs(2))
  show "\<forall>(d, t) \<in> set (dailyTotals sm).
          t = calculateTotals (filter (\<lambda>e. date e = d) entries)"
  proof (clarify)
    fix d t assume "(d, t) \<in> set (dailyTotals sm)"
    then obtain es where m: "(d, es) \<in> set (object_entries byDate)" and "t = calculateTotals es"
      by (auto simp: dt)
    moreover from m have "(d, es) \<in> set byDate" by (simp add: set_object_entries)
    ultimately show "t = calculateTotals (filter (\<lambda>e. date e = d) entries)"
      using gs(3) by blast
  qed
qed

lemma summarize_sorted:
  assumes "summarize a b entries goals = Inr (NutritionSummary a' b' sm)"
    and "\<forall>e \<in> set entries. is_iso_date (date e)"
    and "sorted (map date entries)"
  shows "sorted (map fst (dailyTotals sm))" and "distinct (map fst (dailyTotals sm))"
proof -
  from assms(1) obtain byDate where
    g: "group_into date entries [] = Inr byDate" and
    dt: "dailyTotals sm =
           map (\<lambda>(d, dayEntries). (d, calculateTotals dayEntries)) (object_entries byDate)"
    by (rule summarize_cases)
  note gs = group_into_date_spec [OF g]
  have "\<forall>k \<in> set (map fst byDate). \<not> is_array_index k"
    using assms(2) by (auto simp only: gs(2) dest: iso_date_not_index)
  then have o: "object_entries byDate = byDate" by (rule object_entries_no_index)
  have keys: "map fst (dailyTotals sm) = map fst byDate"
    by (simp add: dt o case_prod_beta)
  have "sorted (map fst [] @ map date entries)" using assms(3) by simp
  with g have "sorted (map fst byDate)" by (rule group_into_sorted)
  then show "sorted (map fst (dailyTotals sm))" by (simp only: keys)
  show "distinct (map fst (dailyTotals sm))" using gs(1) by (simp only: keys)
qed

lemma summarize_returns:
  assumes "entries \<noteq> []" and "\<forall>e \<in> set entries. is_iso_date (date e)"
  shows "\<exists>sm. summarize a b entries goals = Inr (NutritionSummary a b sm)"
proof -
  have "\<forall>e \<in> set entries. date e \<notin> set object_prototype_keys"
    using assms(2) by (blast dest: iso_date_not_prototype)
  then obtain byDate where "group_into date entries [] = Inr byDate"
    using group_into_total [of entries date "[]"] by blast
  then show ?thesis using assms(1) by (simp add: summarize_def Let_def)
qed

lemma get_summary_fst:
  "fst (get_summary startDate endDate st) =
     summarize startDate endDate (fst (getLogsByDateRange startDate endDate st))
       (fst (getGoals st))"
  by (simp add: get_summary_def case_prod_beta getGoals_fst getLogsByDateRange_snd getDb_getDb)

lemma get_daily_log_cases:
  assumes "fst (get_daily_log d today st) = Inr (FoodLog v)"
  obtains byMeal where
    "fst (getDailyLog (string_or d today) st) \<noteq> []"
    "group_into (\<lambda>entry. string_or (meal entry) ''unspecified'')
       (fst (getDailyLog (string_or d today) st)) [] = Inr byMeal"
    "by_meal v = object_entries byMeal"
    "view_totals v = calculateTotals (fst (getDailyLog (string_or d today) st))"
    "calories_pct v =
       (case if_truthy (Option.bind (fst (getGoals st)) daily_calories) of
          None \<Rightarrow> None
        | Some g \<Rightarrow> Some (Math_round (js_mul (js_div (calories (view_totals v)) g) (Fin 100))))"
proof -
  let ?entries = "fst (getDailyLog (string_or d today) st)"
  let ?goals = "fst (getGoals st)"
  have gg: "fst (getGoals (snd (getDailyLog (string_or d today) st))) = ?goals"
    by (simp add: getDailyLog_snd getGoals_getDb)
  from assms have ne: "?entries \<noteq> []"
    by (auto simp: get_daily_log_def case_prod_beta Let_def split: if_splits)
  from assms ne obtain byMeal where
    g: "group_into (\<lambda>entry. string_or (meal entry) ''unspecified'') ?entries [] = Inr byMeal"
    by (auto simp: get_daily_log_def case_prod_beta Let_def split: sum.splits)
  from assms ne g have eq:
    "v = \<lparr>view_date = string_or d today,
          by_meal = object_entries byMeal,
          view_totals = calculateTotals ?entries,
          calories_pct =
            (case if_truthy (Option.bind ?goals daily_calories) of
               None \<Rightarrow> None
             | Some g \<Rightarrow>
                 Some (Math_round (js_mul (js_div (calories (calculateTotals ?entries)) g) (Fin 100)))),
          calories_goal = if_truthy (Option.bind ?goals daily_calories),
          protein_goal = if_truthy (Option.bind ?goals goal_protein_g),
          carbs_goal = if_truthy (Option.bind ?goals goal_carbs_g),
          fat_goal = if_truthy (Option.bind ?goals goal_fat_g)\<rparr>"
    unfolding get_daily_log_def Let_def case_prod_beta gg
    by (simp only: list.size(3) length_0_conv if_False sum.case sum.inject
        daily_log_response.inject fst_conv)
  have
    "by_meal v = object_entries byMeal"
    "view_totals v = calculateTotals ?entries"
    "calories_pct v =
       (case if_truthy (Option.bind ?goals daily_calories) of
          None \<Rightarrow> None
        | Some g \<Rightarrow> Some (Math_round (js_mul (js_div (calories (view_totals v)) g) (Fin 100))))"
    by (subst eq, simp only: DailyLogView.simps)+
  with ne g show ?thesis by (rule that)
qed

lemma pct_facts:
  assumes "goal \<noteq> Some NaN"
    and "pct = (case if_truthy goal of
                  None \<Rightarrow> None
                | Some g \<Rightarrow> Some (Math_round (js_mul (js_div actual g) (Fin 100))))"
  shows "(pct = None \<longleftrightarrow> goal = None \<or> goal = Some (Fin 0))
         \<and> (\<forall>g. goal = Some g \<and> js_gt g (Fin 0) \<longrightarrow>
               pct = Some (Math_round (js_mul (js_div actual g) (Fin 100))))
         \<and> (\<forall>p. pct = Some p \<longrightarrow>
               (\<exists>g. goal = Some g \<and> g \<noteq> Fin 0
                    \<and> p = Math_round (js_mul (js_div actual g) (Fin 100))))"
proof (cases goal)
  case None
  then show ?thesis using assms by (simp add: if_truthy_def)
next
  case (Some g)
  show ?thesis
  proof (cases "truthy g")
    case True
    then show ?thesis using assms Some by (auto simp: if_truthy_def truthy_def)
  next
    case False
    then have "g = Fin 0" using assms(1) Some by (auto simp: truthy_def)
    then show ?thesis using assms Some by (auto simp: if_truthy_def truthy_def)
  qed
qed

lemma log_food_unfold:
  "log_food args today st =
     (case LogFoodSchema_parse args of
        Inl err \<Rightarrow> (Inl err, st)
      | Inr input \<Rightarrow>
          (case fst (logFood (new_entry input today) st) of
             Inl err \<Rightarrow> (Inl err, snd (logFood (new_entry input today) st))
           | Inr entry \<Rightarrow>
               (Inr \<lparr>logged_entry = entry,
                     logged_date = string_or (lf_date input) today,
                     daily_total =
                       calculateTotals
                         (fst (getDailyLog (string_or (lf_date input) today)
                                (snd (logFood (new_entry input today) st)))),
                     calories_delta =
                       (case if_truthy (Option.bind (fst (getGoals st)) daily_calories) of
                          None \<Rightarrow> None
                        | Some g \<Rightarrow>
                            let remaining =
                                  js_sub g (calories (calculateTotals
                                    (fst (getDailyLog (string_or (lf_date input) today)
                                           (snd (logFood (new_entry input today) st))))))
                            in if js_gt remaining (Fin 0) then Some (Remaining remaining)
                               else Some (OverGoal (Math_abs remaining)))\<rparr>,
                snd (logFood (new_entry input today) st))))"
proof -
  have gg: "\<And>d e. fst (getGoals (snd (getDailyLog d (snd (logFood e st))))) = fst (getGoals st)"
    by (simp add: getDailyLog_snd getGoals_getDb getGoals_after_logFood)
  have ss: "\<And>d e. snd (getGoals (snd (getDailyLog d (snd (logFood e st))))) = snd (logFood e st)"
    by (simp add: getDailyLog_snd getGoals_snd getDb_idem logFood_goals)
  show ?thesis
    unfolding log_food_def Let_def case_prod_beta gg ss
    by (simp split: sum.splits)
qed

lemma log_food_cases:
  assumes "fst (log_food args today st) = Inr r"
  shows "calories_delta r =
           (case if_truthy (Option.bind (fst (getGoals st)) daily_calories) of
              None \<Rightarrow> None
            | Some g \<Rightarrow>
                if js_gt (js_sub g (calories (daily_total r))) (Fin 0)
                then Some (Remaining (js_sub g (calories (daily_total r))))
                else Some (OverGoal (Math_abs (js_sub g (calories (daily_total r))))))"
    and "daily_total r =
           calculateTotals (fst (getDailyLog (logged_date r) (snd (log_food args today st))))"
proof -
  from assms obtain input where p: "LogFoodSchema_parse args = Inr input"
    by (auto simp: log_food_unfold split: sum.splits)
  from assms p obtain entry where l: "fst (logFood (new_entry input today) st) = Inr entry"
    by (auto simp: log_food_unfold split: sum.splits)
  let ?tot = "calculateTotals
                (fst (getDailyLog (string_or (lf_date input) today)
                       (snd (logFood (new_entry input today) st))))"
  from assms p l have r:
    "r = \<lparr>logged_entry = entry, logged_date = string_or (lf_date input) today,
          daily_total = ?tot,
          calories_delta =
            (case if_truthy (Option.bind (fst (getGoals st)) daily_calories) of
               None \<Rightarrow> None
             | Some g \<Rightarrow>
                 let remaining = js_sub g (calories ?tot)
                 in if js_gt remaining (Fin 0) then Some (Remaining remaining)
                    else Some (OverGoal (Math_abs remaining)))\<rparr>"
    by (simp only: log_food_unfold sum.case fst_conv sum.inject)
  from p l have s: "snd (log_food args today st) = snd (logFood (new_entry input today) st)"
    by (simp only: log_food_unfold sum.case snd_conv)
  show "daily_total r =
           calculateTotals (fst (getDailyLog (logged_date r) (snd (log_food args today st))))"
    by (subst (1 2) r) (simp only: LogFoodResponse.simps s)
  show "calories_delta r =
           (case if_truthy (Option.bind (fst (getGoals st)) daily_calories) of
              None \<Rightarrow> None
            | Some g \<Rightarrow>
                if js_gt (js_sub g (calories (daily_total r))) (Fin 0)
                then Some (Remaining (js_sub g (calories (daily_total r))))
                else Some (OverGoal (Math_abs (js_sub g (calories (daily_total r))))))"
    by (subst (1 2 3 4) r) (simp only: LogFoodResponse.simps Let_def)
qed

lemma log_food_returns:
  assumes "LogFoodSchema_parse args = Inr args"
  shows "\<exists>r. fst (log_food args today st) = Inr r"
proof -
  from assms have n: "lf_serving_size args \<noteq> NaN" "lf_calories args \<noteq> NaN"
    by (auto simp: LogFoodSchema_parse_def split: if_splits)
  then have "\<exists>row. fst (logFood (new_entry args today) st) = Inr row"
    by (simp add: logFood_def Let_def new_entry_def)
  then show ?thesis using assms by (auto simp: log_food_unfold)
qed

section \<open>Sample runs\<close>

lemma sample_store_eq:
  "sample_store =
     \<lparr>db_open = True, clock = ''2025-01-15 08:00:00'',
      tbl_goals = [default_goals ''2025-01-15 08:00:00''], tbl_food_logs = [], last_rowid = 0\<rparr>"
  unfolding sample_store_def getDb_fresh_store by (simp add: fresh_store_def)

lemma getGoals_sample_store:
  "fst (getGoals sample_store) = Some (default_goals ''2025-01-15 08:00:00'')"
  by (simp add: getGoals_def sample_store_eq getDb_def default_goals_def)

lemma summarize_two_days:
  "summarize ''2025-01-14'' ''2025-01-15'' two_days (Some (default_goals now))
     = Inr (NutritionSummary ''2025-01-14'' ''2025-01-15'' two_days_summary)"
proof -
  have g: "group_into date two_days []
     = Inr [(''2025-01-14'', [sample_entry 1 ''2025-01-14'' (Fin 1801) None]),
            (''2025-01-15'', [sample_entry 2 ''2025-01-15'' (Fin 2200) None])]"
    by (simp add: two_days_def sample_entry_def object_prototype_keys_def)
  have o: "object_entries
            [(''2025-01-14'', [sample_entry 1 ''2025-01-14'' (Fin 1801) None]),
             (''2025-01-15'', [sample_entry 2 ''2025-01-15'' (Fin 2200) None])]
          = [(''2025-01-14'', [sample_entry 1 ''2025-01-14'' (Fin 1801) None]),
             (''2025-01-15'', [sample_entry 2 ''2025-01-15'' (Fin 2200) None])]"
    by (rule object_entries_no_index) (simp add: sample_dates_not_index)
  have s: "js_div (js_sum [Fin 1801, Fin 2200]) (Fin 2) = Fin (4001 / 2)"
    by (simp add: js_sum_def rnd_simps half_4001)
  have s0: "js_div (js_sum [Fin 0, Fin 0]) (Fin 2) = Fin 0"
    by (simp add: js_sum_def rnd_simps)
  have n: "length two_days = 2" by (simp add: two_days_def)
  show ?thesis
    by (simp add: summarize_def g o n calculateTotals_single rnd_simps s s0 round1_zero
        if_truthy_def truthy_def default_goals_def Let_def pct_2001 two_days_summary_def
        del: group_into.simps js_div.simps js_mul.simps)
qed

lemma getLogsByDateRange_two_days:
  "fst (getLogsByDateRange ''2025-01-14'' ''2025-01-15'' two_days_store) = two_days"
  by (simp add: getLogsByDateRange_def two_days_store_def sample_store_eq getDb_def
      two_days_reversed_def two_days_def sample_entry_def)

lemma getGoals_two_days_store:
  "fst (getGoals two_days_store) = Some (default_goals ''2025-01-15 08:00:00'')"
  by (simp add: getGoals_def two_days_store_def sample_store_eq getDb_def default_goals_def)

lemma getGoals_half_store:
  "fst (getGoals half_store) = Some (default_goals ''2025-01-15 08:00:00'')"
  by (simp add: getGoals_def half_store_def sample_store_eq getDb_def default_goals_def)

lemma getDailyLog_half_store:
  "fst (getDailyLog ''2025-01-15'' half_store) = [half_row]"
  by (simp add: getDailyLog_def half_store_def sample_store_eq getDb_def half_row_def
      sample_entry_def)

lemma get_daily_log_half_store:
  "fst (get_daily_log (Some ''2025-01-15'') ''2025-01-16'' half_store) = Inr (FoodLog half_view)"
proof -
  have d: "string_or (Some ''2025-01-15'') ''2025-01-16'' = ''2025-01-15''"
    by (simp add: string_or_def nonempty_or_null_def)
  have g: "group_into (\<lambda>entry. string_or (meal entry) ''unspecified'') [half_row] []
             = Inr [(''unspecified'', [half_row])]"
    by (simp add: half_row_def sample_entry_def string_or_def nonempty_or_null_def
        object_prototype_keys_def)
  have o: "object_entries [(''unspecified'', [half_row])] = [(''unspecified'', [half_row])]"
    by (rule object_entries_no_index) (simp add: unspecified_not_index)
  have gg: "fst (getGoals (snd (getDailyLog ''2025-01-15'' half_store)))
              = Some (default_goals ''2025-01-15 08:00:00'')"
    by (simp add: getDailyLog_snd getGoals_getDb getGoals_half_store)
  show ?thesis
    unfolding get_daily_log_def Let_def case_prod_beta d gg getDailyLog_half_store
    by (simp add: g o calculateTotals_half_row pct_half if_truthy_def truthy_def
        default_goals_def half_view_def
        del: group_into.simps js_div.simps js_mul.simps Math_round.simps)
qed

lemma zero_goal_store_eq:
  "zero_goal_store =
     sample_store\<lparr>tbl_goals :=
       [(default_goals ''2025-01-15 08:00:00'')
          \<lparr>daily_calories := Some (Fin 0), goal_protein_g := Some (Fin 100)\<rparr>]\<rparr>"
proof -
  have o: "db_open sample_store" by (simp add: sample_store_eq)
  show ?thesis
    unfolding zero_goal_store_def
    by (simp add: set_goals_snd SetGoalsSchema_parse_def truthy_def updateGoals_open [OF o] Let_def)
       (simp add: sample_store_eq update_goals_row_def default_goals_def nullish_or_def sql_real_def)
qed

lemma getGoals_zero_goal_store:
  "fst (getGoals zero_goal_store) =
     Some ((default_goals ''2025-01-15 08:00:00'')
             \<lparr>daily_calories := Some (Fin 0), goal_protein_g := Some (Fin 100)\<rparr>)"
  by (simp add: getGoals_def zero_goal_store_eq sample_store_eq getDb_def default_goals_def)

lemma oatmeal_parse: "LogFoodSchema_parse oatmeal_args = Inr oatmeal_args"
  by (simp add: LogFoodSchema_parse_def oatmeal_args_def)

lemma oatmeal_logged:
  assumes "db_open st" "tbl_food_logs st = []" "last_rowid st = 0"
    "clock st = ''2025-01-15 08:00:00''"
  shows "logFood (new_entry oatmeal_args today) st =
           (Inr ((sample_entry 1 ''2025-01-15'' (Fin 150) (Some (Fin 5)))
                   \<lparr>logged_at := ''2025-01-15 08:00:00''\<rparr>),
            st\<lparr>tbl_food_logs :=
                 [(sample_entry 1 ''2025-01-15'' (Fin 150) (Some (Fin 5)))
                    \<lparr>logged_at := ''2025-01-15 08:00:00''\<rparr>],
               last_rowid := 1\<rparr>)"
  using assms
  by (simp add: logFood_def getDb_idem Let_def new_entry_def oatmeal_args_def sample_entry_def
      string_or_def nonempty_or_null_def if_truthy_def sql_real_def)

lemma oatmeal_log_food:
  assumes "db_open st" "tbl_food_logs st = []" "last_rowid st = 0"
    "clock st = ''2025-01-15 08:00:00''"
  shows "fst (log_food oatmeal_args today st) =
     Inr (oatmeal_response
       (case if_truthy (Option.bind (fst (getGoals st)) daily_calories) of
          None \<Rightarrow> None
        | Some g \<Rightarrow>
            if js_gt (js_sub g (Fin 150)) (Fin 0) then Some (Remaining (js_sub g (Fin 150)))
            else Some (OverGoal (Math_abs (js_sub g (Fin 150))))))"
proof -
  have d: "string_or (lf_date oatmeal_args) today = ''2025-01-15''"
    by (simp add: oatmeal_args_def string_or_def nonempty_or_null_def)
  have l: "fst (getDailyLog ''2025-01-15''
              (st\<lparr>tbl_food_logs :=
                 [(sample_entry 1 ''2025-01-15'' (Fin 150) (Some (Fin 5)))
                    \<lparr>logged_at := ''2025-01-15 08:00:00''\<rparr>],
               last_rowid := 1\<rparr>))
           = [(sample_entry 1 ''2025-01-15'' (Fin 150) (Some (Fin 5)))
                \<lparr>logged_at := ''2025-01-15 08:00:00''\<rparr>]"
    using assms(1) by (simp add: getDailyLog_def getDb_def sample_entry_def)
  show ?thesis
    unfolding log_food_unfold oatmeal_parse sum.case oatmeal_logged [OF assms] fst_conv snd_conv
      d l oatmeal_total
    by (simp add: oatmeal_response_def Let_def del: js_gt.simps split: option.splits)
qed

section \<open>The claims\<close>

subsection \<open>C1: Totals are sums\<close>


subsection \<open>C2: Daily averages\<close>

text \<open>
  C2 as stated fails: the average is not the quotient itself but the quotient
  rounded. Two days with 1801 and 2200 calories: the sum over the two per-date
  totals divided by the two non-empty buckets is 2000.5, the average of the
  summary is 2001.
\<close>

theorem summarize_average_rounded_counterexample:
  "summarize ''2025-01-14'' ''2025-01-15'' two_days (Some (default_goals ''2025-01-15 08:00:00''))
     = Inr (NutritionSummary ''2025-01-14'' ''2025-01-15'' two_days_summary)
   \<and> avgCalories two_days_summary = Fin 2001
   \<and> js_div (js_sum (map (\<lambda>d. calories (snd d)) (dailyTotals two_days_summary))) (Fin 2)
       = Fin (4001 / 2)
   \<and> avgCalories two_days_summary
       \<noteq> js_div (js_sum (map (\<lambda>d. calories (snd d)) (dailyTotals two_days_summary))) (Fin 2)"
proof -
  have s: "js_div (js_sum [Fin 1801, Fin 2200]) (Fin 2) = Fin (4001 / 2)"
    by (simp add: js_sum_def rnd_simps half_4001)
  show ?thesis
    by (simp add: summarize_two_days) (simp add: two_days_summary_def s)
qed

text \<open>
  C2 (amended). In a range summary the number of days is the number of distinct
  dates among the entries; there is one DailyTotals per such date, the totals of
  the entries of that date; and each daily average is the sum of the field over
  these DailyTotals divided by that number of dates, then rounded: to the nearest
  integer for calories, to one decimal for protein, carbs and fat. Dates without
  entries do not count. For entries, at least one, with dates of the form
  YYYY-MM-DD the summarizer returns such a summary.
\<close>

theorem summarize_averages:
  "(summarize a b entries goals = Inr (NutritionSummary a' b' sm)
    \<longrightarrow> numDays sm = card (date ` set entries)
        \<and> distinct (map fst (dailyTotals sm))
        \<and> set (map fst (dailyTotals sm)) = date ` set entries
        \<and> (\<forall>(d, t) \<in> set (dailyTotals sm).
              t = calculateTotals (filter (\<lambda>e. date e = d) entries))
        \<and> avgCalories sm =
            Math_round (js_div (js_sum (map (\<lambda>d. calories (snd d)) (dailyTotals sm)))
                          (Fin (of_nat (card (date ` set entries)))))
        \<and> avgProtein sm =
            round1 (js_div (js_sum (map (\<lambda>d. protein_g (snd d)) (dailyTotals sm)))
                      (Fin (of_nat (card (date ` set entries)))))
        \<and> avgCarbs sm =
            round1 (js_div (js_sum (map (\<lambda>d. carbs_g (snd d)) (dailyTotals sm)))
                      (Fin (of_nat (card (date ` set entries)))))
        \<and> avgFat sm =
            round1 (js_div (js_sum (map (\<lambda>d. fat_g (snd d)) (dailyTotals sm)))
                      (Fin (of_nat (card (date ` set entries))))))
   \<and> (entries \<noteq> [] \<and> (\<forall>e \<in> set entries. is_iso_date (date e))
    \<longrightarrow> (\<exists>sm. summarize a b entries goals = Inr (NutritionSummary a b sm)))"
proof (intro conjI impI)
  assume h: "summarize a b entries goals = Inr (NutritionSummary a' b' sm)"
  from h obtain
    n: "numDays sm = length (dailyTotals sm)" and
    av: "avgCalories sm =
           Math_round (js_div (js_sum (map (\<lambda>d. calories (snd d)) (dailyTotals sm)))
                         (Fin (of_nat (numDays sm))))"
        "avgProtein sm =
           round1 (js_div (js_sum (map (\<lambda>d. protein_g (snd d)) (dailyTotals sm)))
                     (Fin (of_nat (numDays sm))))"
        "avgCarbs sm =
           round1 (js_div (js_sum (map (\<lambda>d. carbs_g (snd d)) (dailyTotals sm)))
                     (Fin (of_nat (numDays sm))))"
        "avgFat sm =
           round1 (js_div (js_sum (map (\<lambda>d. fat_g (snd d)) (dailyTotals sm)))
                     (Fin (of_nat (numDays sm))))"
    by (rule summarize_cases)
  note dt = summarize_daily_totals [OF h]
  have c: "numDays sm = card (date ` set entries)"
  proof -
    have "numDays sm = length (map fst (dailyTotals sm))" by (simp add: n)
    also have "\<dots> = card (set (map fst (dailyTotals sm)))"
      using dt(1) by (simp only: distinct_card)
    finally show ?thesis by (simp only: dt(2))
  qed
  show "numDays sm = card (date ` set entries)" by (rule c)
  show "distinct (map fst (dailyTotals sm))" by (rule dt(1))
  show "set (map fst (dailyTotals sm)) = date ` set entries" by (rule dt(2))
  show "\<forall>(d, t) \<in> set (dailyTotals sm).
          t = calculateTotals (filter (\<lambda>e. date e = d) entries)"
    by (rule dt(3))
  show "avgCalories sm =
          Math_round (js_div (js_sum (map (\<lambda>d. calories (snd d)) (dailyTotals sm)))
                        (Fin (of_nat (card (date ` set entries)))))"
    using av(1) by (simp only: c)
  show "avgProtein sm =
          round1 (js_div (js_sum (map (\<lambda>d. protein_g (snd d)) (dailyTotals sm)))
                    (Fin (of_nat (card (date ` set entries)))))"
    using av(2) by (simp only: c)
  show "avgCarbs sm =
          round1 (js_div (js_sum (map (\<lambda>d. carbs_g (snd d)) (dailyTotals sm)))
                    (Fin (of_nat (card (date ` set entries)))))"
    using av(3) by (simp only: c)
  show "avgFat sm =
          round1 (js_div (js_sum (map (\<lambda>d. fat_g (snd d)) (dailyTotals sm)))
                    (Fin (of_nat (card (date ` set entries)))))"
    using av(4) by (simp only: c)
next
  assume "entries \<noteq> [] \<and> (\<forall>e \<in> set entries. is_iso_date (date e))"
  then show "\<exists>sm. summarize a b entries goals = Inr (NutritionSummary a b sm)"
    using summarize_returns [of entries a b goals] by blast
qed

text \<open>An instance: the two days above.\<close>

theorem summarize_averages_witness:
  "summarize ''2025-01-14'' ''2025-01-15'' two_days (Some (default_goals ''2025-01-15 08:00:00''))
     = Inr (NutritionSummary ''2025-01-14'' ''2025-01-15'' two_days_summary)
   \<and> numDays two_days_summary = card (date ` set two_days)
   \<and> map snd (dailyTotals two_days_summary) =
       [calculateTotals (filter (\<lambda>e. date e = ''2025-01-14'') two_days),
        calculateTotals (filter (\<lambda>e. date e = ''2025-01-15'') two_days)]
   \<and> avgCalories two_days_summary =
       Math_round (js_div (js_sum (map (\<lambda>d. calories (snd d)) (dailyTotals two_days_summary)))
                     (Fin (of_nat (card (date ` set two_days)))))
   \<and> two_days \<noteq> []
   \<and> list_all (\<lambda>e. is_iso_date (date e)) two_days
   \<and> (\<exists>sm. summarize ''2025-01-14'' ''2025-01-15'' two_days None
              = Inr (NutritionSummary ''2025-01-14'' ''2025-01-15'' sm))"
proof -
  have ne: "two_days \<noteq> []" by (simp add: two_days_def)
  have i: "list_all (\<lambda>e. is_iso_date (date e)) two_days"
    by (simp add: two_days_def sample_entry_def is_digit_def)
  from i have i': "\<forall>e \<in> set two_days. is_iso_date (date e)" by (simp only: list_all_iff)
  note ex = summarize_averages [where a = "''2025-01-14''" and b = "''2025-01-15''"
      and entries = two_days and goals = None, THEN conjunct2, THEN mp, OF conjI [OF ne i']]
  note t = summarize_averages [THEN conjunct1, THEN mp,
      OF summarize_two_days [of "''2025-01-15 08:00:00''"]]
  from t have n: "numDays two_days_summary = card (date ` set two_days)" by (rule conjunct1)
  from t have "\<forall>(d, t) \<in> set (dailyTotals two_days_summary).
                 t = calculateTotals (filter (\<lambda>e. date e = d) two_days)"
    by blast
  then have d: "map snd (dailyTotals two_days_summary) =
       [calculateTotals (filter (\<lambda>e. date e = ''2025-01-14'') two_days),
        calculateTotals (filter (\<lambda>e. date e = ''2025-01-15'') two_days)]"
    by (simp add: two_days_summary_def)
  from t have a: "avgCalories two_days_summary =
       Math_round (js_div (js_sum (map (\<lambda>d. calories (snd d)) (dailyTotals two_days_summary)))
                     (Fin (of_nat (card (date ` set two_days)))))"
    by blast
  from summarize_two_days [of "''2025-01-15 08:00:00''"] n d a ne i ex show ?thesis
    by (intro conjI)
qed

subsection \<open>C3: Goal delta\<close>

text \<open>
  C3 as stated fails: after set\_goals stored the calorie goal 0 together with a
  protein goal of 100, both goal fields are set, and log\_food produces no delta.
\<close>

theorem log_food_zero_goal_counterexample:
  "Option.bind (fst (getGoals zero_goal_store)) daily_calories = Some (Fin 0)
   \<and> Option.bind (fst (getGoals zero_goal_store)) goal_protein_g = Some (Fin 100)
   \<and> fst (log_food oatmeal_args ''2025-01-15'' zero_goal_store) = Inr (oatmeal_response None)
   \<and> calories_delta (oatmeal_response None) = None"
proof -
  have a: "db_open zero_goal_store" "tbl_food_logs zero_goal_store = []"
    "last_rowid zero_goal_store = 0" "clock zero_goal_store = ''2025-01-15 08:00:00''"
    by (simp_all add: zero_goal_store_eq sample_store_eq)
  show ?thesis
    by (simp add: oatmeal_log_food [OF a] getGoals_zero_goal_store)
       (simp add: default_goals_def if_truthy_def truthy_def oatmeal_response_def)
qed

text \<open>
  C3 (amended). log\_food produces a delta for calories only, and it does so if
  and only if the calorie goal is set and is a non-zero number. The delta is the
  goal minus the day's calorie total; when it is greater than zero it is reported
  as remaining (under goal), otherwise its absolute value is reported as over
  goal. A goal that is unset or zero produces no delta. On every input that the
  schema accepts the handler returns such a response.
\<close>

theorem log_food_calories_delta:
  "(fst (log_food args today st) = Inr r
    \<longrightarrow> (calories_delta r = None \<longleftrightarrow>
          \<not> truthy_opt (Option.bind (fst (getGoals st)) daily_calories))
        \<and> (\<forall>g. Option.bind (fst (getGoals st)) daily_calories = Some g \<and> truthy g \<longrightarrow>
              (js_gt (js_sub g (calories (daily_total r))) (Fin 0) \<longrightarrow>
                 calories_delta r = Some (Remaining (js_sub g (calories (daily_total r)))))
              \<and> (\<not> js_gt (js_sub g (calories (daily_total r))) (Fin 0) \<longrightarrow>
                 calories_delta r =
                   Some (OverGoal (Math_abs (js_sub g (calories (daily_total r)))))))
        \<and> daily_total r =
            calculateTotals (fst (getDailyLog (logged_date r) (snd (log_food args today st)))))
   \<and> (LogFoodSchema_parse args = Inr args
    \<longrightarrow> (\<exists>r. fst (log_food args today st) = Inr r))"
proof (intro conjI impI)
  assume h: "fst (log_food args today st) = Inr r"
  note c = log_food_cases [OF h]
  show "calories_delta r = None \<longleftrightarrow>
          \<not> truthy_opt (Option.bind (fst (getGoals st)) daily_calories)"
    using c(1)
    by (cases "Option.bind (fst (getGoals st)) daily_calories")
       (simp_all add: if_truthy_def del: js_gt.simps)
  show "\<forall>g. Option.bind (fst (getGoals st)) daily_calories = Some g \<and> truthy g \<longrightarrow>
              (js_gt (js_sub g (calories (daily_total r))) (Fin 0) \<longrightarrow>
                 calories_delta r = Some (Remaining (js_sub g (calories (daily_total r)))))
              \<and> (\<not> js_gt (js_sub g (calories (daily_total r))) (Fin 0) \<longrightarrow>
                 calories_delta r =
                   Some (OverGoal (Math_abs (js_sub g (calories (daily_total r))))))"
    using c(1) by (simp add: if_truthy_def del: js_gt.simps)
  show "daily_total r =
          calculateTotals (fst (getDailyLog (logged_date r) (snd (log_food args today st))))"
    by (rule c(2))
next
  assume "LogFoodSchema_parse args = Inr args"
  then show "\<exists>r. fst (log_food args today st) = Inr r" by (rule log_food_returns)
qed

text \<open>An instance: 150 calories logged against the seeded goal of 2000.\<close>

theorem log_food_calories_delta_witness:
  "fst (log_food oatmeal_args ''2025-01-15'' sample_store)
     = Inr (oatmeal_response (Some (Remaining (Fin 1850))))
   \<and> Option.bind (fst (getGoals sample_store)) daily_calories = Some (Fin 2000)
   \<and> truthy (Fin 2000)
   \<and> js_sub (Fin 2000) (calories (daily_total (oatmeal_response (Some (Remaining (Fin 1850))))))
       = Fin 1850
   \<and> js_gt (Fin 1850) (Fin 0)
   \<and> calories_delta (oatmeal_response (Some (Remaining (Fin 1850))))
       = Some (Remaining (js_sub (Fin 2000)
           (calories (daily_total (oatmeal_response (Some (Remaining (Fin 1850))))))))
   \<and> LogFoodSchema_parse oatmeal_args = Inr oatmeal_args
   \<and> (\<exists>r. fst (log_food oatmeal_args ''2025-01-16'' zero_goal_store) = Inr r)"
proof -
  note ex = log_food_calories_delta [where args = oatmeal_args and today = "''2025-01-16''"
      and st = zero_goal_store, THEN conjunct2, THEN mp, OF oatmeal_parse]
  have a: "db_open sample_store" "tbl_food_logs sample_store = []"
    "last_rowid sample_store = 0" "clock sample_store = ''2025-01-15 08:00:00''"
    by (simp_all add: sample_store_eq)
  have s: "js_sub (Fin 2000) (Fin 150) = Fin 1850"
    by (simp add: js_sub_def rnd_simps)
  have g: "Option.bind (fst (getGoals sample_store)) daily_calories = Some (Fin 2000)"
    by (simp add: getGoals_sample_store default_goals_def)
  have t: "truthy (Fin 2000)" by (simp add: truthy_def)
  have r: "fst (log_food oatmeal_args ''2025-01-15'' sample_store)
     = Inr (oatmeal_response (Some (Remaining (Fin 1850))))"
    by (simp add: oatmeal_log_food [OF a] g if_truthy_def t s)
  have s': "js_sub (Fin 2000)
              (calories (daily_total (oatmeal_response (Some (Remaining (Fin 1850))))))
            = Fin 1850"
    by (simp add: oatmeal_response_def s)
  have p: "js_gt (Fin 1850) (Fin 0)" by simp
  have p': "js_gt (js_sub (Fin 2000)
              (calories (daily_total (oatmeal_response (Some (Remaining (Fin 1850)))))))
             (Fin 0)"
    by (simp only: s') simp
  note th = log_food_calories_delta [THEN conjunct1, THEN mp, OF r,
      THEN conjunct2, THEN conjunct1, THEN spec, THEN mp,
      OF conjI [OF g t], THEN conjunct1, THEN mp, OF p']
  from r g t s' p th oatmeal_parse ex show ?thesis by (intro conjI)
qed

subsection \<open>C4: Percentage of the goal\<close>

text \<open>
  C4. In the daily log and in the range summary, for a calorie goal that is not
  NaN (SQLite stores none): no percentage is produced exactly when the goal is
  absent or zero; when the goal is positive the percentage is
  round(actual / goal * 100), with the day's calorie total, respectively the
  average shown, for actual; and whenever a percentage is produced it is that
  expression for a goal that is not zero, so no division by zero takes place.
\<close>

theorem percentage_of_goal:
  "(fst (get_daily_log d today st) = Inr (FoodLog v)
      \<and> Option.bind (fst (getGoals st)) daily_calories \<noteq> Some NaN
    \<longrightarrow> (calories_pct v = None \<longleftrightarrow>
           Option.bind (fst (getGoals st)) daily_calories = None
           \<or> Option.bind (fst (getGoals st)) daily_calories = Some (Fin 0))
        \<and> (\<forall>g. Option.bind (fst (getGoals st)) daily_calories = Some g \<and> js_gt g (Fin 0) \<longrightarrow>
              calories_pct v =
                Some (Math_round (js_mul (js_div (calories (view_totals v)) g) (Fin 100))))
        \<and> (\<forall>p. calories_pct v = Some p \<longrightarrow>
              (\<exists>g. Option.bind (fst (getGoals st)) daily_calories = Some g \<and> g \<noteq> Fin 0
                   \<and> p = Math_round (js_mul (js_div (calories (view_totals v)) g) (Fin 100)))))
   \<and> (summarize a b entries goals = Inr (NutritionSummary a' b' sm)
      \<and> Option.bind goals daily_calories \<noteq> Some NaN
    \<longrightarrow> (avg_pct sm = None \<longleftrightarrow>
           Option.bind goals daily_calories = None
           \<or> Option.bind goals daily_calories = Some (Fin 0))
        \<and> (\<forall>g. Option.bind goals daily_calories = Some g \<and> js_gt g (Fin 0) \<longrightarrow>
              avg_pct sm = Some (Math_round (js_mul (js_div (avgCalories sm) g) (Fin 100))))
        \<and> (\<forall>p. avg_pct sm = Some p \<longrightarrow>
              (\<exists>g. Option.bind goals daily_calories = Some g \<and> g \<noteq> Fin 0
                   \<and> p = Math_round (js_mul (js_div (avgCalories sm) g) (Fin 100)))))"
proof (intro conjI)
  show "fst (get_daily_log d today st) = Inr (FoodLog v)
      \<and> Option.bind (fst (getGoals st)) daily_calories \<noteq> Some NaN
    \<longrightarrow> (calories_pct v = None \<longleftrightarrow>
           Option.bind (fst (getGoals st)) daily_calories = None
           \<or> Option.bind (fst (getGoals st)) daily_calories = Some (Fin 0))
        \<and> (\<forall>g. Option.bind (fst (getGoals st)) daily_calories = Some g \<and> js_gt g (Fin 0) \<longrightarrow>
              calories_pct v =
                Some (Math_round (js_mul (js_div (calories (view_totals v)) g) (Fin 100))))
        \<and> (\<forall>p. calories_pct v = Some p \<longrightarrow>
              (\<exists>g. Option.bind (fst (getGoals st)) daily_calories = Some g \<and> g \<noteq> Fin 0
                   \<and> p = Math_round (js_mul (js_div (calories (view_totals v)) g) (Fin 100))))"
  proof
    assume h: "fst (get_daily_log d today st) = Inr (FoodLog v)
      \<and> Option.bind (fst (getGoals st)) daily_calories \<noteq> Some NaN"
    then have h1: "fst (get_daily_log d today st) = Inr (FoodLog v)" by blast
    from h1 have p: "calories_pct v =
       (case if_truthy (Option.bind (fst (getGoals st)) daily_calories) of
          None \<Rightarrow> None
        | Some g \<Rightarrow> Some (Math_round (js_mul (js_div (calories (view_totals v)) g) (Fin 100))))"
      by (rule get_daily_log_cases)
    from h have n: "Option.bind (fst (getGoals st)) daily_calories \<noteq> Some NaN" by blast
    show "(calories_pct v = None \<longleftrightarrow>
           Option.bind (fst (getGoals st)) daily_calories = None
           \<or> Option.bind (fst (getGoals st)) daily_calories = Some (Fin 0))
        \<and> (\<forall>g. Option.bind (fst (getGoals st)) daily_calories = Some g \<and> js_gt g (Fin 0) \<longrightarrow>
              calories_pct v =
                Some (Math_round (js_mul (js_div (calories (view_totals v)) g) (Fin 100))))
        \<and> (\<forall>p. calories_pct v = Some p \<longrightarrow>
              (\<exists>g. Option.bind (fst (getGoals st)) daily_calories = Some g \<and> g \<noteq> Fin 0
                   \<and> p = Math_round (js_mul (js_div (calories (view_totals v)) g) (Fin 100))))"
      by (rule pct_facts [OF n p])
  qed
next
  show "summarize a b entries goals = Inr (NutritionSummary a' b' sm)
      \<and> Option.bind goals daily_calories \<noteq> Some NaN
    \<longrightarrow> (avg_pct sm = None \<longleftrightarrow>
           Option.bind goals daily_calories = None
           \<or> Option.bind goals daily_calories = Some (Fin 0))
        \<and> (\<forall>g. Option.bind goals daily_calories = Some g \<and> js_gt g (Fin 0) \<longrightarrow>
              avg_pct sm = Some (Math_round (js_mul (js_div (avgCalories sm) g) (Fin 100))))
        \<and> (\<forall>p. avg_pct sm = Some p \<longrightarrow>
              (\<exists>g. Option.bind goals daily_calories = Some g \<and> g \<noteq> Fin 0
                   \<and> p = Math_round (js_mul (js_div (avgCalories sm) g) (Fin 100))))"
  proof
    assume h: "summarize a b entries goals = Inr (NutritionSummary a' b' sm)
      \<and> Option.bind goals daily_calories \<noteq> Some NaN"
    then have h1: "summarize a b entries goals = Inr (NutritionSummary a' b' sm)" by blast
    from h1 have p: "avg_pct sm =
       (case if_truthy (Option.bind goals daily_calories) of
          None \<Rightarrow> None
        | Some g \<Rightarrow> Some (Math_round (js_mul (js_div (avgCalories sm) g) (Fin 100))))"
      by (rule summarize_cases)
    from h have n: "Option.bind goals daily_calories \<noteq> Some NaN" by blast
    show "(avg_pct sm = None \<longleftrightarrow>
           Option.bind goals daily_calories = None
           \<or> Option.bind goals daily_calories = Some (Fin 0))
        \<and> (\<forall>g. Option.bind goals daily_calories = Some g \<and> js_gt g (Fin 0) \<longrightarrow>
              avg_pct sm = Some (Math_round (js_mul (js_div (avgCalories sm) g) (Fin 100))))
        \<and> (\<forall>p. avg_pct sm = Some p \<longrightarrow>
              (\<exists>g. Option.bind goals daily_calories = Some g \<and> g \<noteq> Fin 0
                   \<and> p = Math_round (js_mul (js_div (avgCalories sm) g) (Fin 100))))"
      by (rule pct_facts [OF n p])
  qed
qed

text \<open>An instance: one day with 150.5 calories, and the two days above, with the goal 2000.\<close>

theorem percentage_of_goal_witness:
  "fst (get_daily_log (Some ''2025-01-15'') ''2025-01-16'' half_store) = Inr (FoodLog half_view)
   \<and> Option.bind (fst (getGoals half_store)) daily_calories = Some (Fin 2000)
   \<and> js_gt (Fin 2000) (Fin 0)
   \<and> calories_pct half_view =
       Some (Math_round (js_mul (js_div (calories (view_totals half_view)) (Fin 2000)) (Fin 100)))
   \<and> summarize ''2025-01-14'' ''2025-01-15'' two_days (Some (default_goals ''2025-01-15 08:00:00''))
       = Inr (NutritionSummary ''2025-01-14'' ''2025-01-15'' two_days_summary)
   \<and> avg_pct two_days_summary =
       Some (Math_round (js_mul (js_div (avgCalories two_days_summary) (Fin 2000)) (Fin 100)))"
proof -
  have g1: "Option.bind (fst (getGoals half_store)) daily_calories = Some (Fin 2000)"
    by (simp add: getGoals_half_store default_goals_def)
  have g2: "Option.bind (Some (default_goals ''2025-01-15 08:00:00'')) daily_calories
              = Some (Fin 2000)"
    by (simp add: default_goals_def)
  have p: "js_gt (Fin 2000) (Fin 0)" by simp
  have n1: "Option.bind (fst (getGoals half_store)) daily_calories \<noteq> Some NaN"
    by (simp only: g1) simp
  have n2: "Option.bind (Some (default_goals ''2025-01-15 08:00:00'')) daily_calories \<noteq> Some NaN"
    by (simp only: g2) simp
  note s = summarize_two_days [of "''2025-01-15 08:00:00''"]
  note t = percentage_of_goal
      [of "Some ''2025-01-15''" "''2025-01-16''" half_store half_view
          "''2025-01-14''" "''2025-01-15''" two_days
          "Some (default_goals ''2025-01-15 08:00:00'')" "''2025-01-14''" "''2025-01-15''"
          two_days_summary]
  note t1 = t [THEN conjunct1, THEN mp, OF conjI [OF get_daily_log_half_store n1],
      THEN conjunct2, THEN conjunct1, THEN spec, THEN mp, OF conjI [OF g1 p]]
  note t2 = t [THEN conjunct2, THEN mp, OF conjI [OF s n2],
      THEN conjunct2, THEN conjunct1, THEN spec, THEN mp, OF conjI [OF g2 p]]
  from get_daily_log_half_store g1 p t1 s t2 show ?thesis
    by (intro conjI)
qed

subsection \<open>C5: Order of the entries\<close>

text \<open>
  C5 as stated fails: the additions round, and the rounded sum depends on the
  order. Three entries with 0.1, 0.2 and 0.3 g of protein (the doubles nearest
  to these) total 0.6000000000000001 in one order and 0.6 in the reverse order.
\<close>

theorem calculateTotals_order_counterexample:
  "mset [sample_entry 3 ''2025-01-15'' (Fin 0) (Some (rnd (3 / 10))),
         sample_entry 2 ''2025-01-15'' (Fin 0) (Some (rnd (1 / 5))),
         sample_entry 1 ''2025-01-15'' (Fin 0) (Some (rnd (1 / 10)))]
     = mset [sample_entry 1 ''2025-01-15'' (Fin 0) (Some (rnd (1 / 10))),
             sample_entry 2 ''2025-01-15'' (Fin 0) (Some (rnd (1 / 5))),
             sample_entry 3 ''2025-01-15'' (Fin 0) (Some (rnd (3 / 10)))]
   \<and> protein_g (calculateTotals
         [sample_entry 1 ''2025-01-15'' (Fin 0) (Some (rnd (1 / 10))),
          sample_entry 2 ''2025-01-15'' (Fin 0) (Some (rnd (1 / 5))),
          sample_entry 3 ''2025-01-15'' (Fin 0) (Some (rnd (3 / 10)))])
       = Fin (5404319552844596 / 2 ^ 53)
   \<and> protein_g (calculateTotals
         [sample_entry 3 ''2025-01-15'' (Fin 0) (Some (rnd (3 / 10))),
          sample_entry 2 ''2025-01-15'' (Fin 0) (Some (rnd (1 / 5))),
          sample_entry 1 ''2025-01-15'' (Fin 0) (Some (rnd (1 / 10)))])
       = Fin (5404319552844595 / 2 ^ 53)
   \<and> calculateTotals
         [sample_entry 3 ''2025-01-15'' (Fin 0) (Some (rnd (3 / 10))),
          sample_entry 2 ''2025-01-15'' (Fin 0) (Some (rnd (1 / 5))),
          sample_entry 1 ''2025-01-15'' (Fin 0) (Some (rnd (1 / 10)))]
       \<noteq> calculateTotals
         [sample_entry 1 ''2025-01-15'' (Fin 0) (Some (rnd (1 / 10))),
          sample_entry 2 ''2025-01-15'' (Fin 0) (Some (rnd (1 / 5))),
          sample_entry 3 ''2025-01-15'' (Fin 0) (Some (rnd (3 / 10)))]"
proof -
  have a: "js_sum [Fin (3602879701896397 / 2 ^ 55), Fin (3602879701896397 / 2 ^ 54),
             Fin (5404319552844595 / 2 ^ 54)] = Fin (5404319552844596 / 2 ^ 53)"
    by code_simp
  have b: "js_sum [Fin (5404319552844595 / 2 ^ 54), Fin (3602879701896397 / 2 ^ 54),
             Fin (3602879701896397 / 2 ^ 55)] = Fin (5404319552844595 / 2 ^ 53)"
    by code_simp
  show ?thesis
    using a b
    by (simp add: calculateTotals_fields sample_entry_def double_tenths or_zero_def truthy_def
        add.commute)
qed

text \<open>
  C5 (amended). When the addends of every field are whole numbers whose
  magnitudes add up to less than \<open>2^53\<close>, calculateTotals returns the same record
  on every permutation of the entries.
\<close>

theorem calculateTotals_permutation_exact:
  assumes "mset es' = mset es" and "exact_entries es"
  shows "calculateTotals es' = calculateTotals es"
proof -
  note p = js_sum_map_permute [OF assms(1)]
  from assms(2) have
    "js_sum (map (\<lambda>e. or_zero (entry_calories e)) es')
       = js_sum (map (\<lambda>e. or_zero (entry_calories e)) es)"
    "js_sum (map (\<lambda>e. or_zero_opt (entry_protein_g e)) es')
       = js_sum (map (\<lambda>e. or_zero_opt (entry_protein_g e)) es)"
    "js_sum (map (\<lambda>e. or_zero_opt (entry_carbs_g e)) es')
       = js_sum (map (\<lambda>e. or_zero_opt (entry_carbs_g e)) es)"
    "js_sum (map (\<lambda>e. or_zero_opt (entry_fat_g e)) es')
       = js_sum (map (\<lambda>e. or_zero_opt (entry_fat_g e)) es)"
    "js_sum (map (\<lambda>e. or_zero_opt (entry_fiber_g e)) es')
       = js_sum (map (\<lambda>e. or_zero_opt (entry_fiber_g e)) es)"
    unfolding exact_entries_def by (blast intro: p)+
  then show ?thesis
    by (simp only: calculateTotals_fields)
qed

text \<open>An instance: the two entries of one day in both orders.\<close>

theorem calculateTotals_permutation_exact_witness:
  "mset [sample_entry 2 ''2025-01-15'' (Fin 400) (Some (Fin 40)),
         sample_entry 1 ''2025-01-15'' (Fin 150) (Some (Fin 5))]
     = mset [sample_entry 1 ''2025-01-15'' (Fin 150) (Some (Fin 5)),
             sample_entry 2 ''2025-01-15'' (Fin 400) (Some (Fin 40))]
   \<and> exact_entries [sample_entry 1 ''2025-01-15'' (Fin 150) (Some (Fin 5)),
                     sample_entry 2 ''2025-01-15'' (Fin 400) (Some (Fin 40))]
   \<and> calculateTotals [sample_entry 2 ''2025-01-15'' (Fin 400) (Some (Fin 40)),
                       sample_entry 1 ''2025-01-15'' (Fin 150) (Some (Fin 5))]
       = calculateTotals [sample_entry 1 ''2025-01-15'' (Fin 150) (Some (Fin 5)),
                          sample_entry 2 ''2025-01-15'' (Fin 400) (Some (Fin 40))]"
proof -
  have p: "mset [sample_entry 2 ''2025-01-15'' (Fin 400) (Some (Fin 40)),
         sample_entry 1 ''2025-01-15'' (Fin 150) (Some (Fin 5))]
     = mset [sample_entry 1 ''2025-01-15'' (Fin 150) (Some (Fin 5)),
             sample_entry 2 ''2025-01-15'' (Fin 400) (Some (Fin 40))]"
    by (simp add: add.commute)
  have e: "exact_entries [sample_entry 1 ''2025-01-15'' (Fin 150) (Some (Fin 5)),
                     sample_entry 2 ''2025-01-15'' (Fin 400) (Some (Fin 40))]"
    by (simp add: exact_entries_def exact_addends_def sample_entry_def or_zero_def truthy_def)
  from calculateTotals_permutation_exact [OF p e] p e show ?thesis by blast
qed

subsection \<open>C6: Order of the daily totals\<close>

text \<open>
  C6. Whatever the rows of the food log and their order - rows of one date need
  not be adjacent, dates need not be stored in order - with dates of the form
  YYYY-MM-DD, the DailyTotals in the summary that get\_summary returns are sorted
  by date, strictly ascending in the order of the strings, one for each date of
  the rows in the range; and when the range holds a row, get\_summary returns
  such a summary. The handler groups what getLogsByDateRange returns, rows
  ordered by date, and the grouping keeps the dates in the order in which it
  meets them: for entries ordered by date the DailyTotals are sorted.
\<close>

theorem get_summary_dailyTotals_sorted:
  "(fst (get_summary startDate endDate st) = Inr (NutritionSummary c d sm)
      \<and> (\<forall>e \<in> set (tbl_food_logs st). is_iso_date (date e))
    \<longrightarrow> sorted (map fst (dailyTotals sm)) \<and> distinct (map fst (dailyTotals sm))
        \<and> set (map fst (dailyTotals sm))
            = date ` set (fst (getLogsByDateRange startDate endDate st)))
   \<and> ((\<forall>e \<in> set (tbl_food_logs st). is_iso_date (date e))
        \<and> fst (getLogsByDateRange startDate endDate st) \<noteq> []
    \<longrightarrow> (\<exists>sm. fst (get_summary startDate endDate st)
                = Inr (NutritionSummary startDate endDate sm)))
   \<and> sorted (map date (fst (getLogsByDateRange startDate endDate st)))
   \<and> (summarize a b entries goals = Inr (NutritionSummary a' b' sm')
      \<and> (\<forall>e \<in> set entries. is_iso_date (date e)) \<and> sorted (map date entries)
    \<longrightarrow> sorted (map fst (dailyTotals sm')) \<and> distinct (map fst (dailyTotals sm')))"
proof (intro conjI impI)
  assume h: "fst (get_summary startDate endDate st) = Inr (NutritionSummary c d sm)
      \<and> (\<forall>e \<in> set (tbl_food_logs st). is_iso_date (date e))"
  let ?entries = "fst (getLogsByDateRange startDate endDate st)"
  from h have s: "summarize startDate endDate ?entries (fst (getGoals st))
                    = Inr (NutritionSummary c d sm)"
    by (simp add: get_summary_fst)
  from h have i: "\<forall>e \<in> set ?entries. is_iso_date (date e)"
    using getLogsByDateRange_subset [of startDate endDate st] by blast
  have o: "sorted (map date ?entries)" by (rule getLogsByDateRange_sorted)
  show "sorted (map fst (dailyTotals sm))" "distinct (map fst (dailyTotals sm))"
    using summarize_sorted [OF s i o] by blast+
  show "set (map fst (dailyTotals sm)) = date ` set ?entries"
    by (rule summarize_daily_totals(2) [OF s])
next
  assume h: "(\<forall>e \<in> set (tbl_food_logs st). is_iso_date (date e))
        \<and> fst (getLogsByDateRange startDate endDate st) \<noteq> []"
  let ?entries = "fst (getLogsByDateRange startDate endDate st)"
  from h have i: "\<forall>e \<in> set ?entries. is_iso_date (date e)"
    using getLogsByDateRange_subset [of startDate endDate st] by blast
  from h have n: "?entries \<noteq> []" by (rule conjunct2)
  from summarize_returns [OF n i, of startDate endDate "fst (getGoals st)"]
  show "\<exists>sm. fst (get_summary startDate endDate st)
                = Inr (NutritionSummary startDate endDate sm)"
    by (simp only: get_summary_fst)
next
  show "sorted (map date (fst (getLogsByDateRange startDate endDate st)))"
    by (rule getLogsByDateRange_sorted)
next
  assume h: "summarize a b entries goals = Inr (NutritionSummary a' b' sm')
      \<and> (\<forall>e \<in> set entries. is_iso_date (date e)) \<and> sorted (map date entries)"
  then show "sorted (map fst (dailyTotals sm'))" "distinct (map fst (dailyTotals sm'))"
    using summarize_sorted [of a b entries goals a' b' sm'] by blast+
qed

text \<open>
  An instance: the rows are stored in descending order of date, the summary
  lists the days in ascending order.
\<close>

theorem get_summary_dailyTotals_sorted_witness:
  "fst (get_summary ''2025-01-14'' ''2025-01-15'' two_days_store)
        = Inr (NutritionSummary ''2025-01-14'' ''2025-01-15'' two_days_summary)
   \<and> list_all (\<lambda>e. is_iso_date (date e)) (tbl_food_logs two_days_store)
   \<and> map date (tbl_food_logs two_days_store) = [''2025-01-15'', ''2025-01-14'']
   \<and> fst (getLogsByDateRange ''2025-01-14'' ''2025-01-15'' two_days_store) \<noteq> []
   \<and> sorted (map fst (dailyTotals two_days_summary))
   \<and> map fst (dailyTotals two_days_summary) = [''2025-01-14'', ''2025-01-15'']
   \<and> (\<exists>sm. fst (get_summary ''2025-01-14'' ''2025-01-15'' two_days_store)
              = Inr (NutritionSummary ''2025-01-14'' ''2025-01-15'' sm))
   \<and> summarize ''2025-01-14'' ''2025-01-15'' two_days
        (Some (default_goals ''2025-01-15 08:00:00''))
      = Inr (NutritionSummary ''2025-01-14'' ''2025-01-15'' two_days_summary)
   \<and> list_all (\<lambda>e. is_iso_date (date e)) two_days
   \<and> sorted (map date two_days)"
proof -
  have i: "list_all (\<lambda>e. is_iso_date (date e)) two_days"
    by (simp add: two_days_def sample_entry_def is_digit_def)
  have s: "sorted (map date two_days)"
    by (simp add: two_days_def sample_entry_def)
  have g: "fst (get_summary ''2025-01-14'' ''2025-01-15'' two_days_store)
        = Inr (NutritionSummary ''2025-01-14'' ''2025-01-15'' two_days_summary)"
    by (simp only: get_summary_fst getLogsByDateRange_two_days getGoals_two_days_store
        summarize_two_days)
  have j: "list_all (\<lambda>e. is_iso_date (date e)) (tbl_food_logs two_days_store)"
    by (simp add: two_days_store_def two_days_reversed_def sample_entry_def is_digit_def)
  have r: "map date (tbl_food_logs two_days_store) = [''2025-01-15'', ''2025-01-14'']"
    by (simp add: two_days_store_def two_days_reversed_def sample_entry_def)
  have n: "fst (getLogsByDateRange ''2025-01-14'' ''2025-01-15'' two_days_store) \<noteq> []"
    by (simp only: getLogsByDateRange_two_days) (simp add: two_days_def)
  have k: "map fst (dailyTotals two_days_summary) = [''2025-01-14'', ''2025-01-15'']"
    by (simp add: two_days_summary_def)
  note u = summarize_two_days [of "''2025-01-15 08:00:00''"]
  from i have i': "\<forall>e \<in> set two_days. is_iso_date (date e)" by (simp only: list_all_iff)
  from j have j': "\<forall>e \<in> set (tbl_food_logs two_days_store). is_iso_date (date e)"
    by (simp only: list_all_iff)
  note o1 = get_summary_dailyTotals_sorted
      [THEN conjunct1, THEN mp, OF conjI [OF g j'], THEN conjunct1]
  note ex = get_summary_dailyTotals_sorted
      [where startDate = "''2025-01-14''" and endDate = "''2025-01-15''"
         and st = two_days_store,
       THEN conjunct2, THEN conjunct1, THEN mp, OF conjI [OF j' n]]
  note o2 = get_summary_dailyTotals_sorted
      [THEN conjunct2, THEN conjunct2, THEN conjunct2, THEN mp,
       OF conjI [OF u conjI [OF i' s]], THEN conjunct1]
  from g j r n o1 k ex u i s show ?thesis by (intro conjI)
qed

subsection \<open>C7: Rounding of what is shown\<close>

text \<open>
  C7 as stated fails for the daily totals: a day with one entry of 150.5
  calories and 0.25 g of protein shows the totals 150.5 and 0.25, where rounding
  would give 151 and 0.3.
\<close>

theorem daily_totals_not_rounded_counterexample:
  "fst (get_daily_log (Some ''2025-01-15'') ''2025-01-16'' half_store) = Inr (FoodLog half_view)
   \<and> calories (view_totals half_view) = Fin (301 / 2)
   \<and> Math_round (Fin (301 / 2)) = Fin 151
   \<and> protein_g (view_totals half_view) = Fin (1 / 4)
   \<and> round1 (Fin (1 / 4)) = Fin (5404319552844595 / 2 ^ 54)
   \<and> Fin (5404319552844595 / 2 ^ 54) \<noteq> Fin (1 / 4)"
  by (simp add: get_daily_log_half_store round1_quarter) (simp add: half_view_def)

text \<open>
  C7 (amended). Each multi-day average is rounded exactly once, as the last step:
  the calorie average is Math.round of the quotient, hence an integer (or not
  finite), and the protein, carbs and fat averages are Math.round(x * 10) / 10 of
  the quotient, hence the double nearest to a whole number of tenths (or not
  finite). Nothing is rounded during accumulation: the quotient is taken from
  the per-date totals, which are the plain sums over the entries of the date.
  The daily totals themselves are shown as accumulated, without any rounding.
\<close>

theorem averages_rounded_once:
  "(summarize a b entries goals = Inr (NutritionSummary a' b' sm)
    \<longrightarrow> avgCalories sm =
          Math_round (js_div (js_sum (map (\<lambda>d. calories (snd d)) (dailyTotals sm)))
                        (Fin (of_nat (numDays sm))))
        \<and> avgProtein sm =
            round1 (js_div (js_sum (map (\<lambda>d. protein_g (snd d)) (dailyTotals sm)))
                      (Fin (of_nat (numDays sm))))
        \<and> avgCarbs sm =
            round1 (js_div (js_sum (map (\<lambda>d. carbs_g (snd d)) (dailyTotals sm)))
                      (Fin (of_nat (numDays sm))))
        \<and> avgFat sm =
            round1 (js_div (js_sum (map (\<lambda>d. fat_g (snd d)) (dailyTotals sm)))
                      (Fin (of_nat (numDays sm))))
        \<and> (whole (avgCalories sm) \<or> avgCalories sm \<in> {PInf, NInf, NaN})
        \<and> (\<forall>x \<in> {avgProtein sm, avgCarbs sm, avgFat sm}.
              (\<exists>k. x = js_div (Fin (of_int k)) (Fin 10)) \<or> x \<in> {PInf, NInf, NaN})
        \<and> (\<forall>(d, t) \<in> set (dailyTotals sm).
              t = calculateTotals (filter (\<lambda>e. date e = d) entries)))
   \<and> (fst (get_daily_log d today st) = Inr (FoodLog v)
    \<longrightarrow> view_totals v = calculateTotals (fst (getDailyLog (string_or d today) st)))"
proof (intro conjI impI)
  assume h: "summarize a b entries goals = Inr (NutritionSummary a' b' sm)"
  from h obtain
    av: "avgCalories sm =
           Math_round (js_div (js_sum (map (\<lambda>d. calories (snd d)) (dailyTotals sm)))
                         (Fin (of_nat (numDays sm))))"
        "avgProtein sm =
           round1 (js_div (js_sum (map (\<lambda>d. protein_g (snd d)) (dailyTotals sm)))
                     (Fin (of_nat (numDays sm))))"
        "avgCarbs sm =
           round1 (js_div (js_sum (map (\<lambda>d. carbs_g (snd d)) (dailyTotals sm)))
                     (Fin (of_nat (numDays sm))))"
        "avgFat sm =
           round1 (js_div (js_sum (map (\<lambda>d. fat_g (snd d)) (dailyTotals sm)))
                     (Fin (of_nat (numDays sm))))"
    by (rule summarize_cases)
  show "avgCalories sm =
          Math_round (js_div (js_sum (map (\<lambda>d. calories (snd d)) (dailyTotals sm)))
                        (Fin (of_nat (numDays sm))))"
       "avgProtein sm =
            round1 (js_div (js_sum (map (\<lambda>d. protein_g (snd d)) (dailyTotals sm)))
                      (Fin (of_nat (numDays sm))))"
       "avgCarbs sm =
            round1 (js_div (js_sum (map (\<lambda>d. carbs_g (snd d)) (dailyTotals sm)))
                      (Fin (of_nat (numDays sm))))"
       "avgFat sm =
            round1 (js_div (js_sum (map (\<lambda>d. fat_g (snd d)) (dailyTotals sm)))
                      (Fin (of_nat (numDays sm))))"
    by (rule av)+
  show "whole (avgCalories sm) \<or> avgCalories sm \<in> {PInf, NInf, NaN}"
    by (subst (1 2) av(1)) (rule Math_round_whole)
  show "\<forall>x \<in> {avgProtein sm, avgCarbs sm, avgFat sm}.
              (\<exists>k. x = js_div (Fin (of_int k)) (Fin 10)) \<or> x \<in> {PInf, NInf, NaN}"
    using round1_one_decimal av(2-4) by (simp del: js_div.simps(1))
  show "\<forall>(d, t) \<in> set (dailyTotals sm).
              t = calculateTotals (filter (\<lambda>e. date e = d) entries)"
    using h by (rule summarize_daily_totals)
next
  assume "fst (get_daily_log d today st) = Inr (FoodLog v)"
  then show "view_totals v = calculateTotals (fst (getDailyLog (string_or d today) st))"
    by (rule get_daily_log_cases)
qed

text \<open>An instance: the two days, and the day with 150.5 calories.\<close>

theorem averages_rounded_once_witness:
  "summarize ''2025-01-14'' ''2025-01-15'' two_days (Some (default_goals ''2025-01-15 08:00:00''))
     = Inr (NutritionSummary ''2025-01-14'' ''2025-01-15'' two_days_summary)
   \<and> avgCalories two_days_summary =
       Math_round (js_div (js_sum (map (\<lambda>d. calories (snd d)) (dailyTotals two_days_summary)))
                     (Fin (of_nat (numDays two_days_summary))))
   \<and> whole (avgCalories two_days_summary)
   \<and> fst (get_daily_log (Some ''2025-01-15'') ''2025-01-16'' half_store) = Inr (FoodLog half_view)
   \<and> view_totals half_view =
       calculateTotals (fst (getDailyLog (string_or (Some ''2025-01-15'') ''2025-01-16'') half_store))"
proof -
  note s = summarize_two_days [of "''2025-01-15 08:00:00''"]
  note t = averages_rounded_once
      [of "''2025-01-14''" "''2025-01-15''" two_days
          "Some (default_goals ''2025-01-15 08:00:00'')" "''2025-01-14''" "''2025-01-15''"
          two_days_summary "Some ''2025-01-15''" "''2025-01-16''" half_store half_view]
  note t1 = t [THEN conjunct1, THEN mp, OF s, THEN conjunct1]
  note t2 = t [THEN conjunct2, THEN mp, OF get_daily_log_half_store]
  have w: "whole (avgCalories two_days_summary)" by (simp add: two_days_summary_def)
  from s t1 w get_daily_log_half_store t2 show ?thesis by (intro conjI)
qed

subsection \<open>C8: Updating the goals\<close>

text \<open>
  C8. When the goals table holds exactly one row, with id 1 and no NaN in it
  (SQLite stores none), updateGoals leaves exactly one row, again with id 1; in
  it a target that was not supplied has its prior value and a target that was
  supplied has the supplied value (NULL for a NaN); this row is the result.
\<close>

theorem updateGoals_overwrites_supplied_only:
  assumes "tbl_goals st = [g]" and "goals_id g = 1" and "no_nan_goals g"
  shows "\<exists>g'. fst (updateGoals input st) = Some g'
           \<and> tbl_goals (snd (updateGoals input st)) = [g']
           \<and> goals_id g' = 1
           \<and> daily_calories g' =
                (case in_daily_calories input of
                   None \<Rightarrow> daily_calories g | Some v \<Rightarrow> sql_real (Some v))
           \<and> goal_protein_g g' =
                (case in_protein_g input of
                   None \<Rightarrow> goal_protein_g g | Some v \<Rightarrow> sql_real (Some v))
           \<and> goal_carbs_g g' =
                (case in_carbs_g input of
                   None \<Rightarrow> goal_carbs_g g | Some v \<Rightarrow> sql_real (Some v))
           \<and> goal_fat_g g' =
                (case in_fat_g input of
                   None \<Rightarrow> goal_fat_g g | Some v \<Rightarrow> sql_real (Some v))"
proof -
  have db: "tbl_goals (getDb st) = [g]"
    using assms(1) by (simp add: getDb_def initializeSchema_def)
  have nn: "sql_real (daily_calories g) = daily_calories g"
           "sql_real (goal_protein_g g) = goal_protein_g g"
           "sql_real (goal_carbs_g g) = goal_carbs_g g"
           "sql_real (goal_fat_g g) = goal_fat_g g"
    using assms(3) by (auto simp: no_nan_goals_def sql_real_def)
  show ?thesis
    unfolding updateGoals_getDb [of input st]
    using db assms(2) nn
    by (simp add: updateGoals_open [OF getDb_open] Let_def update_goals_row_def nullish_or_def
        split: option.splits)
qed

text \<open>An instance: only the calorie goal is supplied to the seeded store.\<close>

theorem updateGoals_overwrites_supplied_only_witness:
  "tbl_goals sample_store = [default_goals ''2025-01-15 08:00:00'']
   \<and> goals_id (default_goals ''2025-01-15 08:00:00'') = 1
   \<and> no_nan_goals (default_goals ''2025-01-15 08:00:00'')
   \<and> (\<exists>g'. fst (updateGoals \<lparr>in_daily_calories = Some (Fin 1800), in_protein_g = None,
                                in_carbs_g = None, in_fat_g = None\<rparr> sample_store) = Some g'
          \<and> daily_calories g' = Some (Fin 1800)
          \<and> goal_protein_g g' = Some (Fin 150)
          \<and> goal_carbs_g g' = Some (Fin 250)
          \<and> goal_fat_g g' = Some (Fin 65))"
proof -
  have a: "tbl_goals sample_store = [default_goals ''2025-01-15 08:00:00'']"
    by (simp add: sample_store_eq)
  have b: "goals_id (default_goals ''2025-01-15 08:00:00'') = 1"
    by (simp add: default_goals_def)
  have c: "no_nan_goals (default_goals ''2025-01-15 08:00:00'')"
    by (simp add: default_goals_def no_nan_goals_def)
  from updateGoals_overwrites_supplied_only [OF a b c,
      of "\<lparr>in_daily_calories = Some (Fin 1800), in_protein_g = None,
           in_carbs_g = None, in_fat_g = None\<rparr>"]
  obtain g' where
    "fst (updateGoals \<lparr>in_daily_calories = Some (Fin 1800), in_protein_g = None,
                        in_carbs_g = None, in_fat_g = None\<rparr> sample_store) = Some g'"
    "daily_calories g' = Some (Fin 1800)" "goal_protein_g g' = Some (Fin 150)"
    "goal_carbs_g g' = Some (Fin 250)" "goal_fat_g g' = Some (Fin 65)"
    by (auto simp: sql_real_def default_goals_def)
  with a b c show ?thesis by blast
qed

subsection \<open>C9: The goals row is always there\<close>

text \<open>
  C9. Opening a store that was never opened seeds the goals table with the row
  (1, 2000, 150, 250, 65), so getGoals returns that row, with a value in each of
  the four targets; a row with id 1 is still there after every operation, hence
  after every sequence of operations, and getGoals never returns nothing.
\<close>

theorem getGoals_after_initialization:
  "fst (getGoals (getDb (fresh_store now))) = Some (default_goals now)
   \<and> daily_calories (default_goals now) = Some (Fin 2000)
   \<and> goal_protein_g (default_goals now) = Some (Fin 150)
   \<and> goal_carbs_g (default_goals now) = Some (Fin 250)
   \<and> goal_fat_g (default_goals now) = Some (Fin 65)
   \<and> has_goals_row (getDb (fresh_store now))
   \<and> (has_goals_row st \<longrightarrow> has_goals_row (apply_op op st))
   \<and> has_goals_row (run_ops ops (getDb (fresh_store now)))
   \<and> fst (getGoals (run_ops ops (getDb (fresh_store now)))) \<noteq> None"
proof -
  have a: "fst (getGoals (getDb (fresh_store now))) = Some (default_goals now)"
    by (simp add: getGoals_fst getDb_getDb) (simp add: getDb_fresh_store default_goals_def)
  have b: "has_goals_row (getDb (fresh_store now))"
    by (simp add: getDb_fresh_store has_goals_row_def default_goals_def)
  have c: "has_goals_row (run_ops ops (getDb (fresh_store now)))"
    using b by (rule run_ops_has_goals)
  have d: "fst (getGoals (run_ops ops (getDb (fresh_store now)))) \<noteq> None"
    using c by (rule getGoals_not_None)
  show ?thesis using a b c d by (simp add: default_goals_def apply_op_has_goals)
qed

text \<open>
  An instance: after the goals were changed, a food was logged and the
  connection was closed, the row is there and getGoals returns a row.
\<close>

theorem getGoals_after_initialization_witness:
  "has_goals_row sample_store
   \<and> has_goals_row (apply_op CloseDb sample_store)
   \<and> fst (getGoals (run_ops
            [UpdateGoals \<lparr>in_daily_calories = Some (Fin 1800), in_protein_g = None,
                          in_carbs_g = None, in_fat_g = None\<rparr>,
             LogFood (sample_entry 0 ''2025-01-15'' (Fin 150) (Some (Fin 5))),
             CloseDb]
            sample_store)) \<noteq> None"
proof -
  note t = getGoals_after_initialization [of "''2025-01-15 08:00:00''" sample_store CloseDb
      "[UpdateGoals \<lparr>in_daily_calories = Some (Fin 1800), in_protein_g = None,
                          in_carbs_g = None, in_fat_g = None\<rparr>,
        LogFood (sample_entry 0 ''2025-01-15'' (Fin 150) (Some (Fin 5))),
        CloseDb]"]
  have h: "has_goals_row sample_store"
    using t by (simp add: sample_store_def)
  from t h show ?thesis by (simp add: sample_store_def)
qed

subsection \<open>C10: set\_goals with nothing to set\<close>

text \<open>
  C10. On an open store, if every target given to set\_goals is zero or absent,
  the handler updates nothing: the store is unchanged and the response reports
  the current goals. Hence whenever set\_goals changes the store, some target of
  the call is a non-zero number; a zero can be stored only in such a call.
\<close>

theorem set_goals_all_zero_or_absent:
  assumes "db_open st"
  shows "(in_daily_calories args \<in> {None, Some (Fin 0)} \<and> in_protein_g args \<in> {None, Some (Fin 0)}
          \<and> in_carbs_g args \<in> {None, Some (Fin 0)} \<and> in_fat_g args \<in> {None, Some (Fin 0)}
          \<longrightarrow> set_goals args st =
                (Inr (CurrentGoals
                        (if_truthy (Option.bind (fst (getGoals st)) daily_calories))
                        (if_truthy (Option.bind (fst (getGoals st)) goal_protein_g))
                        (if_truthy (Option.bind (fst (getGoals st)) goal_carbs_g))
                        (if_truthy (Option.bind (fst (getGoals st)) goal_fat_g))),
                 st))
         \<and> (snd (set_goals args st) \<noteq> st
          \<longrightarrow> truthy_opt (in_daily_calories args) \<or> truthy_opt (in_protein_g args)
              \<or> truthy_opt (in_carbs_g args) \<or> truthy_opt (in_fat_g args))"
proof (intro conjI impI)
  assume z: "in_daily_calories args \<in> {None, Some (Fin 0)} \<and> in_protein_g args \<in> {None, Some (Fin 0)}
          \<and> in_carbs_g args \<in> {None, Some (Fin 0)} \<and> in_fat_g args \<in> {None, Some (Fin 0)}"
  then have p: "SetGoalsSchema_parse args = Inr args"
    by (auto simp: SetGoalsSchema_parse_def)
  from z have f: "\<not> truthy_opt (in_daily_calories args)" "\<not> truthy_opt (in_protein_g args)"
    "\<not> truthy_opt (in_carbs_g args)" "\<not> truthy_opt (in_fat_g args)"
    by (auto simp: truthy_def)
  show "set_goals args st =
                (Inr (CurrentGoals
                        (if_truthy (Option.bind (fst (getGoals st)) daily_calories))
                        (if_truthy (Option.bind (fst (getGoals st)) goal_protein_g))
                        (if_truthy (Option.bind (fst (getGoals st)) goal_carbs_g))
                        (if_truthy (Option.bind (fst (getGoals st)) goal_fat_g))),
                 st)"
    using p f assms
    by (simp add: set_goals_def case_prod_beta getGoals_snd getDb_idem)
next
  assume c: "snd (set_goals args st) \<noteq> st"
  show "truthy_opt (in_daily_calories args) \<or> truthy_opt (in_protein_g args)
              \<or> truthy_opt (in_carbs_g args) \<or> truthy_opt (in_fat_g args)"
  proof (rule ccontr)
    assume n: "\<not> ?thesis"
    have "snd (set_goals args st) = st"
      using n assms
      by (auto simp: set_goals_snd getDb_idem SetGoalsSchema_parse_def split: sum.splits)
    with c show False by simp
  qed
qed

text \<open>
  Instances: a call with zeros only reports the seeded goals and changes nothing;
  a call with a zero calorie goal and a protein goal of 100 stores the zero.
\<close>

theorem set_goals_all_zero_or_absent_witness:
  "db_open sample_store
   \<and> set_goals \<lparr>in_daily_calories = Some (Fin 0), in_protein_g = None,
                 in_carbs_g = None, in_fat_g = Some (Fin 0)\<rparr> sample_store
       = (Inr (CurrentGoals (Some (Fin 2000)) (Some (Fin 150)) (Some (Fin 250)) (Some (Fin 65))),
          sample_store)
   \<and> snd (set_goals \<lparr>in_daily_calories = Some (Fin 0), in_protein_g = Some (Fin 100),
                      in_carbs_g = None, in_fat_g = None\<rparr> sample_store) \<noteq> sample_store
   \<and> truthy_opt (Some (Fin 100))
   \<and> map daily_calories
        (tbl_goals (snd (set_goals \<lparr>in_daily_calories = Some (Fin 0), in_protein_g = Some (Fin 100),
                      in_carbs_g = None, in_fat_g = None\<rparr> sample_store)))
       = [Some (Fin 0)]"
proof -
  have o: "db_open sample_store" by (simp add: sample_store_eq)
  have g: "fst (getGoals sample_store) = Some (default_goals ''2025-01-15 08:00:00'')"
    by (simp add: getGoals_fst getDb_idem [OF o]) (simp add: sample_store_eq default_goals_def)
  have u: "tbl_goals (snd (set_goals \<lparr>in_daily_calories = Some (Fin 0), in_protein_g = Some (Fin 100),
                      in_carbs_g = None, in_fat_g = None\<rparr> sample_store))
       = [(default_goals ''2025-01-15 08:00:00'')\<lparr>daily_calories := Some (Fin 0),
             goal_protein_g := Some (Fin 100)\<rparr>]"
    by (simp add: set_goals_snd SetGoalsSchema_parse_def truthy_def updateGoals_open [OF o] Let_def)
       (simp add: sample_store_eq update_goals_row_def default_goals_def nullish_or_def sql_real_def)
  have d: "snd (set_goals \<lparr>in_daily_calories = Some (Fin 0), in_protein_g = Some (Fin 100),
                      in_carbs_g = None, in_fat_g = None\<rparr> sample_store) \<noteq> sample_store"
  proof
    assume "snd (set_goals \<lparr>in_daily_calories = Some (Fin 0), in_protein_g = Some (Fin 100),
                      in_carbs_g = None, in_fat_g = None\<rparr> sample_store) = sample_store"
    with u have "tbl_goals sample_store = [(default_goals ''2025-01-15 08:00:00'')\<lparr>daily_calories := Some (Fin 0),
             goal_protein_g := Some (Fin 100)\<rparr>]" by simp
    then show False by (simp add: sample_store_eq default_goals_def)
  qed
  from set_goals_all_zero_or_absent [OF o, of "\<lparr>in_daily_calories = Some (Fin 0), in_protein_g = None,
                 in_carbs_g = None, in_fat_g = Some (Fin 0)\<rparr>"]
  have a: "set_goals \<lparr>in_daily_calories = Some (Fin 0), in_protein_g = None,
                 in_carbs_g = None, in_fat_g = Some (Fin 0)\<rparr> sample_store
       = (Inr (CurrentGoals (Some (Fin 2000)) (Some (Fin 150)) (Some (Fin 250)) (Some (Fin 65))),
          sample_store)"
    by (simp add: g) (simp add: default_goals_def if_truthy_def truthy_def)
  from set_goals_all_zero_or_absent [OF o, of "\<lparr>in_daily_calories = Some (Fin 0), in_protein_g = Some (Fin 100),
                      in_carbs_g = None, in_fat_g = None\<rparr>"] d
  have t: "truthy_opt (Some (Fin 100))" by (simp add: truthy_def)
  show ?thesis using o a d t u by (simp add: default_goals_def)
qed

end
